theory Spec2Isabelle
  imports Main
begin

section \<open>Shape and type model\<close>

text \<open>
  \<^verbatim>\<open>Shape\<close> is a \<^verbatim>\<open>std::vector<size_t>\<close>. Dimension values are only compared and
  passed to \<^verbatim>\<open>std::max\<close>, so they are naturals; where the source subtracts two
  \<^verbatim>\<open>size_t\<close> values the wrap-around modulo \<open>2 ^ 64\<close> is written out.
\<close>

type_synonym Shape = "nat list"

text \<open>
  Modelled from the spec: the classes \<^verbatim>\<open>Dimension\<close> and \<^verbatim>\<open>PartialShape\<close> are declared
  in headers that are not among the sources. A dimension is "either a non-negative
  integer (static) or unknown (dynamic)"; a partial shape is "an ordered sequence of
  Dimensions, or entirely unknown rank".
\<close>

datatype Dimension = Static nat | Dynamic

datatype PartialShape = RankDynamic | Ranked "Dimension list"

text \<open>
  The element-type tags that \<^verbatim>\<open>evaluate_broadcast\<close> names in its switch, and
  \<open>other_tag\<close> for every other value of the tag (the switch's \<^verbatim>\<open>default\<close>).
\<close>

datatype Type_t =
    boolean | i8 | i16 | i32 | i64 | u8 | u16 | u32 | u64 | bf16 | f16 | f32 | f64
  | other_tag nat

text \<open>
  What the source can throw: \<^verbatim>\<open>NODE_VALIDATION_CHECK\<close> (a validation failure, with its
  message), \<^verbatim>\<open>NGRAPH_CHECK\<close>, \<^verbatim>\<open>throw ngraph_error\<close>, the exceptions of the standard
  library, and \<open>undefined_behaviour\<close> for a \<^verbatim>\<open>std::vector\<close> access out of range
  through \<^verbatim>\<open>operator[]\<close> or \<^verbatim>\<open>erase\<close>, where C++ promises nothing.
\<close>

datatype error =
    NodeValidationFailure string
  | CheckFailure string
  | ngraph_error string
  | std_out_of_range
  | std_invalid_argument
  | undefined_behaviour

section \<open>CPU layout pass\<close>

text \<open>
  A tensor view is a shared object: nodes hold \<^verbatim>\<open>shared_ptr\<close>s to their output
  tensor views, so the views live in a store addressed by identifier and a node is
  the list of the identifiers of its outputs, in slot order.
\<close>

record 'l TensorView =
  tv_shape :: Shape
  tv_layout :: "'l option"

type_synonym 'l tv_store = "nat \<Rightarrow> 'l TensorView"

type_synonym Node_outputs = "nat list"

text \<open>
  The inner loop of \<^verbatim>\<open>CPULayout::run_on_call_graph\<close>. The constructor
  \<^verbatim>\<open>LayoutDescriptor(*tv)\<close> is declared in cpu_layout_descriptor.hpp, which is not
  among the sources: it is the parameter \<open>mk\<close>, a function of the tensor view it is
  given.
\<close>

fun layout_outputs :: "('l TensorView \<Rightarrow> 'l) \<Rightarrow> Node_outputs \<Rightarrow> 'l tv_store \<Rightarrow> 'l tv_store" where
  "layout_outputs mk [] st = st"
| "layout_outputs mk (tv # tvs) st =
     (case tv_layout (st tv) of
        Some l \<Rightarrow> layout_outputs mk tvs st
      | None \<Rightarrow> layout_outputs mk tvs (st(tv := (st tv)\<lparr>tv_layout := Some (mk (st tv))\<rparr>)))"

fun layout_nodes :: "('l TensorView \<Rightarrow> 'l) \<Rightarrow> Node_outputs list \<Rightarrow> 'l tv_store \<Rightarrow> 'l tv_store" where
  "layout_nodes mk [] st = st"
| "layout_nodes mk (node # nodes) st = layout_nodes mk nodes (layout_outputs mk node st)"

definition run_on_call_graph ::
  "('l TensorView \<Rightarrow> 'l) \<Rightarrow> Node_outputs list \<Rightarrow> 'l tv_store \<Rightarrow> bool \<times> 'l tv_store" where
  "run_on_call_graph mk nodes st = (False, layout_nodes mk nodes st)"

section \<open>Value descriptors\<close>

text \<open>
  What a node reads of one of its inputs (an \<^verbatim>\<open>Output<Node>\<close>): the element type
  and the partial shape published by the producer.
\<close>

record Output =
  element_type :: Type_t
  partial_shape :: PartialShape

fun is_static_dim :: "Dimension \<Rightarrow> bool" where
  "is_static_dim (Static n) = True"
| "is_static_dim Dynamic = False"

fun get_length :: "Dimension \<Rightarrow> nat" where
  "get_length (Static n) = n"
| "get_length Dynamic = 0"

fun is_static :: "PartialShape \<Rightarrow> bool" where
  "is_static RankDynamic = False"
| "is_static (Ranked ds) = list_all is_static_dim ds"

definition is_dynamic :: "PartialShape \<Rightarrow> bool" where
  "is_dynamic ps = (\<not> is_static ps)"

fun rank_is_dynamic :: "PartialShape \<Rightarrow> bool" where
  "rank_is_dynamic RankDynamic = True"
| "rank_is_dynamic (Ranked ds) = False"

text \<open>
  Modelled from the spec: \<^verbatim>\<open>get_shape\<close> (of an \<^verbatim>\<open>Output\<close>, and the node's
  \<^verbatim>\<open>get_input_shape\<close> and \<^verbatim>\<open>get_output_shape\<close>) is declared outside the sources.
  It reads a partial shape as a \<^verbatim>\<open>Shape\<close>, which "requires data's shape to be
  static; otherwise fails".
\<close>

fun get_shape :: "PartialShape \<Rightarrow> error + Shape" where
  "get_shape RankDynamic = Inl std_invalid_argument"
| "get_shape (Ranked ds) =
     (if list_all is_static_dim ds then Inr (map get_length ds) else Inl std_invalid_argument)"

text \<open>The conversion of a \<^verbatim>\<open>Shape\<close> to a \<^verbatim>\<open>PartialShape\<close>.\<close>

definition to_partial :: "Shape \<Rightarrow> PartialShape" where
  "to_partial sh = Ranked (map Static sh)"

section \<open>Squeeze\<close>

text \<open>
  The node: its data input, its axes input when that is a \<^verbatim>\<open>Constant\<close> (the value
  of \<^verbatim>\<open>cast_vector<int64_t>()\<close>; \<open>None\<close> when \<^verbatim>\<open>as_type_ptr<Constant>\<close> is null),
  and the type of output 0 as \<^verbatim>\<open>set_output_type\<close> last left it.
\<close>

record SqueezeNode =
  data :: Output
  axes_constant :: "int list option"
  sq_output :: Output

definition sq_set_output_type :: "Type_t \<Rightarrow> PartialShape \<Rightarrow> SqueezeNode \<Rightarrow> SqueezeNode" where
  "sq_set_output_type et ps node = node\<lparr>sq_output := \<lparr>element_type = et, partial_shape = ps\<rparr>\<rparr>"

text \<open>
  Modelled from the spec: \<^verbatim>\<open>normalize_axes\<close> is declared in validation_util.hpp,
  which is not among the sources. It resolves negative (Python-style) indices against
  the rank; an axis that names no dimension of that rank is a failure. Duplicates are
  kept here: the caller removes them with its \<^verbatim>\<open>std::set\<close>.
\<close>

definition normalize_axis :: "nat \<Rightarrow> int \<Rightarrow> error + nat" where
  "normalize_axis tensor_rank axis =
     (if - int tensor_rank \<le> axis \<and> axis < int tensor_rank
      then Inr (nat (if axis < 0 then axis + int tensor_rank else axis))
      else Inl (CheckFailure ''axis out of the tensor rank range''))"

fun normalize_axes :: "nat \<Rightarrow> int list \<Rightarrow> error + nat list" where
  "normalize_axes tensor_rank [] = Inr []"
| "normalize_axes tensor_rank (axis # axes) =
     (case normalize_axis tensor_rank axis of
        Inl e \<Rightarrow> Inl e
      | Inr a \<Rightarrow> (case normalize_axes tensor_rank axes of
                    Inl e \<Rightarrow> Inl e
                  | Inr as \<Rightarrow> Inr (a # as)))"

text \<open>
  \<^verbatim>\<open>get_axes\<close>. The source reads \<^verbatim>\<open>rank().get_length()\<close> before it tests the rank:
  on a dynamic rank that read throws \<^verbatim>\<open>std::invalid_argument\<close>, so the test
  \<^verbatim>\<open>data_rank.is_dynamic()\<close> is reached with a static rank only.
\<close>

definition get_axes :: "SqueezeNode \<Rightarrow> error + nat list" where
  "get_axes node =
     (case partial_shape (data node) of
        RankDynamic \<Rightarrow> Inl std_invalid_argument
      | Ranked ds \<Rightarrow>
         (case axes_constant node of
            None \<Rightarrow> Inl (ngraph_error ''get_axes requires constant axes'')
          | Some av \<Rightarrow>
              if av = [] then
                (case get_shape (partial_shape (data node)) of
                   Inl e \<Rightarrow> Inl e
                 | Inr data_shape \<Rightarrow>
                     Inr (filter (\<lambda>idx. data_shape ! idx = 1) [0..<length ds]))
              else normalize_axes (length ds) av))"

text \<open>
  \<^verbatim>\<open>set<size_t, greater<size_t>> unique_axes(begin(axes), end(axes))\<close>: the distinct
  axes in descending order.
\<close>

definition unique_axes :: "nat list \<Rightarrow> nat list" where
  "unique_axes axes = rev (sort (remdups axes))"

text \<open>
  The loop over \<^verbatim>\<open>unique_axes\<close>. \<^verbatim>\<open>at\<close> throws \<^verbatim>\<open>std::out_of_range\<close> on an index
  that is not below the size.
\<close>

fun squeeze_axes_loop :: "PartialShape \<Rightarrow> nat list \<Rightarrow> nat list \<Rightarrow> error + nat list" where
  "squeeze_axes_loop ps [] axes_to_squeeze = Inr axes_to_squeeze"
| "squeeze_axes_loop ps (axis # rest) axes_to_squeeze =
     (case (if \<not> is_dynamic ps then
              (case get_shape ps of
                 Inl e \<Rightarrow> Inl e
               | Inr data_shape \<Rightarrow>
                   if length data_shape \<le> axis then Inl std_out_of_range
                   else if data_shape ! axis = 1 then Inr ()
                   else Inl (NodeValidationFailure
                     ''provided axis value is invalid. Only axes of size 1 may be removed.''))
            else Inr ()) of
        Inl e \<Rightarrow> Inl e
      | Inr u \<Rightarrow>
          if length axes_to_squeeze \<le> axis then Inl std_out_of_range
          else squeeze_axes_loop ps rest (axes_to_squeeze[axis := 1]))"

definition pre_validate_and_infer_types :: "SqueezeNode \<Rightarrow> error + SqueezeNode" where
  "pre_validate_and_infer_types node =
     (let data_has_dynamic_rank = rank_is_dynamic (partial_shape (data node));
          data_has_dynamic_shape = is_dynamic (partial_shape (data node));
          axes_is_empty_constant =
            (case axes_constant node of Some av \<Rightarrow> av = [] | None \<Rightarrow> False)
      in if data_has_dynamic_rank \<or> axes_constant node = None
            \<or> (data_has_dynamic_shape \<and> axes_is_empty_constant)
         then Inr (sq_set_output_type (element_type (data node)) RankDynamic node)
         else
           (case partial_shape (data node) of
              RankDynamic \<Rightarrow> Inl undefined_behaviour
            | Ranked ds \<Rightarrow>
               (case get_axes node of
                  Inl e \<Rightarrow> Inl e
                | Inr axes \<Rightarrow>
                   (case squeeze_axes_loop (partial_shape (data node)) (unique_axes axes)
                           (replicate (length ds) 0) of
                      Inl e \<Rightarrow> Inl e
                    | Inr axes_to_squeeze \<Rightarrow>
                        Inr (sq_set_output_type (element_type (data node))
                          (Ranked (map (\<lambda>idx. ds ! idx)
                             (filter (\<lambda>idx. axes_to_squeeze ! idx = 0) [0..<length ds])))
                          node)))))"

text \<open>
  Modelled from the spec: \<^verbatim>\<open>get_default_order\<close> is declared in util.hpp, which is
  not among the sources; it is the "canonical (identity) input dimension ordering"
  of the given rank.
\<close>

definition get_default_order :: "nat \<Rightarrow> nat list" where
  "get_default_order n = [0..<n]"

text \<open>The arguments that \<^verbatim>\<open>decompose_op\<close> gives to the \<^verbatim>\<open>Reshape\<close> constructor.\<close>

record Reshape =
  reshape_arg :: Output
  input_order :: "nat list"
  reshape_output_shape :: Shape

definition decompose_op :: "SqueezeNode \<Rightarrow> error + Reshape list" where
  "decompose_op node =
     (if \<not> is_static (partial_shape (sq_output node)) then
        Inl (NodeValidationFailure
          ''output shape was not calculated during pre_validate_and_infer_types. Can not decompose.'')
      else
        (case get_shape (partial_shape (data node)) of
           Inl e \<Rightarrow> Inl e
         | Inr data_shape \<Rightarrow>
            (case get_shape (partial_shape (sq_output node)) of
               Inl e \<Rightarrow> Inl e
             | Inr output_data_shape \<Rightarrow>
                 Inr [\<lparr>reshape_arg = data node,
                       input_order = get_default_order (length data_shape),
                       reshape_output_shape = output_data_shape\<rparr>])))"

section \<open>Broadcast\<close>

text \<open>
  The mode tag. The enumeration is declared in attr_types.hpp, which is not among the
  sources: \<^verbatim>\<open>broadcast_base.cpp\<close> names \<^verbatim>\<open>NONE\<close> (the explicit mode), \<^verbatim>\<open>NUMPY\<close> and
  \<^verbatim>\<open>PDPD\<close>, and has a branch for any other value of the tag.
\<close>

datatype BroadcastType = NONE | NUMPY | PDPD | OTHER_TYPE

record BroadcastModeSpec =
  m_type :: BroadcastType
  m_axis :: int

text \<open>
  The node that produces input 1, as \<^verbatim>\<open>validate_and_infer_types\<close> inspects it: a
  \<^verbatim>\<open>Constant\<close> with the value of its \<^verbatim>\<open>get_shape_val()\<close>, a \<^verbatim>\<open>Concat\<close> with its
  inputs, or any other node. An input of the \<^verbatim>\<open>Concat\<close> is a \<^verbatim>\<open>Constant\<close> with the
  value of its \<^verbatim>\<open>get_axis_vector_val()\<close>, or not a constant.
\<close>

datatype ConcatInput = ConstantInput "nat list" | NonConstantInput

datatype ShapeProducer = Constant Shape | Concat "ConcatInput list" | OtherProducer

text \<open>
  The node: mode, the three inputs (input 2 is read in mode \<^verbatim>\<open>NONE\<close> only), the
  producer of input 1, the value of \<^verbatim>\<open>get_axis_vector_val()\<close> of the producer of input 2
  when that is a \<^verbatim>\<open>Constant\<close>, and the type of output 0.
\<close>

record BroadcastBase =
  m_mode :: BroadcastModeSpec
  arg :: Output
  target_shape :: Output
  target_shape_node :: ShapeProducer
  axes_mapping :: Output
  axes_mapping_constant :: "nat list option"
  bc_output :: Output

definition set_output_type :: "Type_t \<Rightarrow> PartialShape \<Rightarrow> BroadcastBase \<Rightarrow> BroadcastBase" where
  "set_output_type et ps node = node\<lparr>bc_output := \<lparr>element_type = et, partial_shape = ps\<rparr>\<rparr>"

text \<open>
  Modelled from the spec: \<^verbatim>\<open>is_integral_number\<close> is declared in element_type.hpp,
  which is not among the sources; "integral element type" is read as the integer
  tags of the enumeration.
\<close>

fun is_integral_number :: "Type_t \<Rightarrow> bool" where
  "is_integral_number i8 = True"
| "is_integral_number i16 = True"
| "is_integral_number i32 = True"
| "is_integral_number i64 = True"
| "is_integral_number u8 = True"
| "is_integral_number u16 = True"
| "is_integral_number u32 = True"
| "is_integral_number u64 = True"
| "is_integral_number t = False"

text \<open>
  Modelled from the spec: \<^verbatim>\<open>Rank::compatible\<close> is declared outside the sources; an
  unknown rank is compatible with every value, a known one with itself.
\<close>

fun rank_compatible :: "PartialShape \<Rightarrow> nat \<Rightarrow> bool" where
  "rank_compatible RankDynamic n = True"
| "rank_compatible (Ranked ds) n = (length ds = n)"

text \<open>
  Modelled from the spec: \<^verbatim>\<open>shape_size\<close> is declared in shape.hpp, which is not among
  the sources; it is the element count of a shape, a product of \<^verbatim>\<open>size_t\<close> values.
\<close>

definition shape_size :: "Shape \<Rightarrow> nat" where
  "shape_size sh = foldl (\<lambda>a d. (a * d) mod 2 ^ 64) 1 sh"

text \<open>Lines 50 to 77: the checks on the element types and ranks of inputs 1 and 2.\<close>

definition check_shape_inputs :: "BroadcastBase \<Rightarrow> error + unit" where
  "check_shape_inputs node =
     (if \<not> is_integral_number (element_type (target_shape node)) then
        Inl (NodeValidationFailure ''Broadcast shape must be an integral number'')
      else if \<not> rank_compatible (partial_shape (target_shape node)) 1 then
        Inl (NodeValidationFailure ''Broadcast shape rank must be 1'')
      else if m_type (m_mode node) = NONE then
        (if \<not> is_integral_number (element_type (axes_mapping node)) then
           Inl (NodeValidationFailure ''Broadcast axes must be integral numbers'')
         else if \<not> rank_compatible (partial_shape (axes_mapping node)) 1 then
           Inl (NodeValidationFailure ''Broadcast axes rank must be 1'')
         else Inr ())
      else Inr ())"

text \<open>
  Lines 79 to 109: the target shape read from the producer of input 1. The \<^verbatim>\<open>Concat\<close>
  has one output, the one input 1 reads, so its output shape is the partial shape of
  input 1. \<^verbatim>\<open>get_axis_vector_val()[0]\<close> on an empty vector is undefined behaviour.
\<close>

fun concat_dimensions :: "ConcatInput list \<Rightarrow> error + Dimension list" where
  "concat_dimensions [] = Inr []"
| "concat_dimensions (concat_input # rest) =
     (case (case concat_input of
              ConstantInput av \<Rightarrow> (case av of [] \<Rightarrow> Inl undefined_behaviour | v # vs \<Rightarrow> Inr (Static v))
            | NonConstantInput \<Rightarrow> Inr Dynamic) of
        Inl e \<Rightarrow> Inl e
      | Inr d \<Rightarrow> (case concat_dimensions rest of
                    Inl e \<Rightarrow> Inl e
                  | Inr ds \<Rightarrow> Inr (d # ds)))"

definition target_result_shape :: "BroadcastBase \<Rightarrow> error + PartialShape" where
  "target_result_shape node =
     (case target_shape_node node of
        Constant shape_val \<Rightarrow> Inr (to_partial shape_val)
      | Concat concat_inputs \<Rightarrow>
          (case get_shape (partial_shape (target_shape node)) of
             Inl e \<Rightarrow> Inr RankDynamic
           | Inr concat_shape \<Rightarrow>
               if length concat_shape = 1 \<and> length concat_inputs = shape_size concat_shape then
                 (case concat_dimensions concat_inputs of
                    Inl e \<Rightarrow> Inl e
                  | Inr output_partial_shape \<Rightarrow> Inr (Ranked output_partial_shape))
               else Inr RankDynamic)
      | OtherProducer \<Rightarrow> Inr RankDynamic)"

text \<open>
  Lines 111 to 164, mode \<^verbatim>\<open>NONE\<close>. \<^verbatim>\<open>std::is_sorted\<close> accepts a non-decreasing
  sequence. \<^verbatim>\<open>arg_shape[i]\<close> is a \<^verbatim>\<open>std::vector\<close> read without a bound check.
\<close>

fun axes_mapping_loop :: "Shape \<Rightarrow> Shape \<Rightarrow> nat list \<Rightarrow> nat list \<Rightarrow> error + unit" where
  "axes_mapping_loop arg_shape target axes_mapping_val [] = Inr ()"
| "axes_mapping_loop arg_shape target axes_mapping_val (i # rest) =
     (if \<not> axes_mapping_val ! i < length target then
        Inl (NodeValidationFailure ''Broadcast axes_mapping exceeds target rank'')
      else if length arg_shape \<le> i then Inl undefined_behaviour
      else if target ! (axes_mapping_val ! i) \<noteq> arg_shape ! i then
        Inl (NodeValidationFailure ''Broadcast target[axes_mapping[i]] mismatch'')
      else axes_mapping_loop arg_shape target axes_mapping_val rest)"

definition validate_axes_mapping :: "BroadcastBase \<Rightarrow> error + unit" where
  "validate_axes_mapping node =
     (if is_static (partial_shape (arg node)) \<and> is_static (partial_shape (target_shape node))
         \<and> is_static (partial_shape (axes_mapping node)) then
        (case get_shape (partial_shape (arg node)) of
           Inl e \<Rightarrow> Inl e
         | Inr arg_shape \<Rightarrow>
            (case get_shape (partial_shape (axes_mapping node)) of
               Inl e \<Rightarrow> Inl e
             | Inr axes_shape \<Rightarrow>
                 if shape_size axes_shape \<noteq> length arg_shape then
                   Inl (NodeValidationFailure
                     ''Broadcast axes_mapping shape does not match rank of input tensor'')
                 else
                   (case (target_shape_node node, axes_mapping_constant node) of
                      (Constant target, Some axes_mapping_val) \<Rightarrow>
                        if \<not> sorted axes_mapping_val then
                          Inl (NodeValidationFailure
                            ''Broadcast does not permit transposes. axes_mapping not in sorted order'')
                        else axes_mapping_loop arg_shape target axes_mapping_val
                               [0..<length axes_mapping_val]
                    | _ \<Rightarrow> Inr ())))
      else Inr ())"

text \<open>
  \<^verbatim>\<open>auto start_axis = (m_mode.m_type == BroadcastType::PDPD) ? m_mode.m_axis
     : target_shape.size() - arg_shape.size();\<close>
  The third operand is a difference of two \<^verbatim>\<open>size_t\<close> values, so the conditional
  expression and \<^verbatim>\<open>start_axis\<close> have type \<^verbatim>\<open>size_t\<close>: the difference wraps modulo
  \<open>2 ^ 64\<close>, and the signed \<^verbatim>\<open>m_axis\<close> is converted to \<^verbatim>\<open>size_t\<close> the same way.
\<close>

definition start_axis :: "BroadcastModeSpec \<Rightarrow> nat \<Rightarrow> nat \<Rightarrow> nat" where
  "start_axis mode target_rank arg_rank =
     (if m_type mode = PDPD then nat (m_axis mode mod 2 ^ 64)
      else nat ((int target_rank - int arg_rank) mod 2 ^ 64))"

text \<open>
  Lines 184 to 195: the loop \<^verbatim>\<open>for (auto i = start_axis; i < target_shape.size(); i++)\<close>,
  run over the indices \<open>[start_axis..<length target]\<close>. \<^verbatim>\<open>arg_shape[i - start_axis]\<close> is a
  \<^verbatim>\<open>std::vector\<close> read without a bound check.
\<close>

fun numpy_pdpd_loop :: "Shape \<Rightarrow> Shape \<Rightarrow> nat \<Rightarrow> nat list \<Rightarrow> Dimension list \<Rightarrow> error + Dimension list" where
  "numpy_pdpd_loop arg_shape target s [] result_shape = Inr result_shape"
| "numpy_pdpd_loop arg_shape target s (i # rest) result_shape =
     (if length arg_shape \<le> i - s then Inl undefined_behaviour
      else if \<not> (arg_shape ! (i - s) = 1 \<or> target ! i = 1 \<or> arg_shape ! (i - s) = target ! i) then
        Inl (NodeValidationFailure ''Broadcast incorrect target shape. Expecting either 1 or arg_shape[i - start_axis]'')
      else if length result_shape \<le> i then Inl undefined_behaviour
      else numpy_pdpd_loop arg_shape target s rest
             (result_shape[i := Static (max (arg_shape ! (i - s)) (target ! i))]))"

definition validate_numpy_pdpd :: "BroadcastBase \<Rightarrow> PartialShape \<Rightarrow> error + PartialShape" where
  "validate_numpy_pdpd node result_shape =
     (if is_static (partial_shape (arg node)) \<and> is_static (partial_shape (target_shape node)) then
        (case get_shape (partial_shape (arg node)) of
           Inl e \<Rightarrow> Inl e
         | Inr arg_shape \<Rightarrow>
            (case target_shape_node node of
               Constant target \<Rightarrow>
                 (let s = start_axis (m_mode node) (length target) (length arg_shape) in
                  if \<not> 0 \<le> s then
                    Inl (NodeValidationFailure ''Broadcast target_shape has smaller rank than arg shape'')
                  else
                    (case result_shape of
                       RankDynamic \<Rightarrow> Inl undefined_behaviour
                     | Ranked ds \<Rightarrow>
                        (case numpy_pdpd_loop arg_shape target s [s..<length target] ds of
                           Inl e \<Rightarrow> Inl e
                         | Inr ds' \<Rightarrow> Inr (Ranked ds'))))
             | _ \<Rightarrow> Inr result_shape))
      else Inr result_shape)"

definition validate_and_infer_types :: "BroadcastBase \<Rightarrow> error + BroadcastBase" where
  "validate_and_infer_types node =
     (case check_shape_inputs node of
        Inl e \<Rightarrow> Inl e
      | Inr u \<Rightarrow>
         (case target_result_shape node of
            Inl e \<Rightarrow> Inl e
          | Inr result_shape \<Rightarrow>
             (case (if m_type (m_mode node) = NONE then
                      (case validate_axes_mapping node of
                         Inl e \<Rightarrow> Inl e
                       | Inr u \<Rightarrow> Inr result_shape)
                    else if m_type (m_mode node) = NUMPY \<or> m_type (m_mode node) = PDPD then
                      validate_numpy_pdpd node result_shape
                    else Inr result_shape) of
                Inl e \<Rightarrow> Inl e
              | Inr result_shape' \<Rightarrow>
                  Inr (set_output_type (element_type (arg node)) result_shape' node))))"

section \<open>Broadcast axes\<close>

text \<open>
  Mode \<^verbatim>\<open>NONE\<close>: \<^verbatim>\<open>axes.erase(axes.begin() + *i)\<close> for the mapped axes, last to first.
  Erasing at a position that is not below the size is undefined behaviour.
\<close>

fun erase_axes :: "nat list \<Rightarrow> nat list \<Rightarrow> error + nat list" where
  "erase_axes [] axes = Inr axes"
| "erase_axes (i # rest) axes =
     (if length axes \<le> i then Inl undefined_behaviour
      else erase_axes rest (take i axes @ drop (Suc i) axes))"

text \<open>
  Modes \<^verbatim>\<open>NUMPY\<close> and \<^verbatim>\<open>PDPD\<close>: the loop over \<open>i = 0, ..., result_shape.size() - 1\<close>. The
  operator \<^verbatim>\<open>||\<close> reads \<^verbatim>\<open>arg_shape[i - start_axis]\<close> only when \<open>i\<close> is not below the
  start axis.
\<close>

fun broadcast_axes_loop :: "Shape \<Rightarrow> Shape \<Rightarrow> nat \<Rightarrow> nat list \<Rightarrow> nat set \<Rightarrow> error + nat set" where
  "broadcast_axes_loop arg_shape result_shape s [] broadcast_axes = Inr broadcast_axes"
| "broadcast_axes_loop arg_shape result_shape s (i # rest) broadcast_axes =
     (if i < s then broadcast_axes_loop arg_shape result_shape s rest (insert i broadcast_axes)
      else if length arg_shape \<le> i - s then Inl undefined_behaviour
      else if result_shape ! i \<noteq> arg_shape ! (i - s) then
        broadcast_axes_loop arg_shape result_shape s rest (insert i broadcast_axes)
      else broadcast_axes_loop arg_shape result_shape s rest broadcast_axes)"

definition get_broadcast_axes :: "BroadcastBase \<Rightarrow> error + (bool \<times> nat set)" where
  "get_broadcast_axes node =
     (case m_type (m_mode node) of
        NONE \<Rightarrow>
          (case axes_mapping_constant node of
             Some axes_mapping_val \<Rightarrow>
               if is_static (partial_shape (target_shape node)) then
                 (case get_shape (partial_shape (target_shape node)) of
                    Inl e \<Rightarrow> Inl e
                  | Inr target_shape_shape \<Rightarrow>
                      if length target_shape_shape \<noteq> 1 then
                        Inl (CheckFailure ''target_shape.size() == 1'')
                      else
                        (case erase_axes (rev axes_mapping_val) [0..<target_shape_shape ! 0] of
                           Inl e \<Rightarrow> Inl e
                         | Inr axes \<Rightarrow> Inr (True, set axes)))
               else Inr (False, {})
           | None \<Rightarrow> Inr (False, {}))
      | OTHER_TYPE \<Rightarrow> Inl (ngraph_error ''Unknown autobroadcast type'')
      | _ \<Rightarrow>
          if is_static (partial_shape (arg node)) \<and> is_static (partial_shape (bc_output node)) then
            (case get_shape (partial_shape (arg node)) of
               Inl e \<Rightarrow> Inl e
             | Inr arg_shape \<Rightarrow>
                (case get_shape (partial_shape (bc_output node)) of
                   Inl e \<Rightarrow> Inl e
                 | Inr result_shape \<Rightarrow>
                    (let s = start_axis (m_mode node) (length result_shape) (length arg_shape) in
                     if \<not> 0 \<le> s then Inl (CheckFailure ''start_axis >= 0'')
                     else
                       (case broadcast_axes_loop arg_shape result_shape s
                               [0..<length result_shape] {} of
                          Inl e \<Rightarrow> Inl e
                        | Inr broadcast_axes \<Rightarrow> Inr (True, broadcast_axes)))))
          else Inr (False, {}))"

section \<open>Broadcast evaluation\<close>

record 'd HostTensor =
  ht_element_type :: Type_t
  ht_shape :: Shape
  ht_data :: 'd

text \<open>
  The template \<^verbatim>\<open>evaluate<ET>\<close>. The kernel \<^verbatim>\<open>runtime::reference::broadcast<T>\<close> is an
  external collaborator: it is the parameter \<open>reference_broadcast\<close>, given the instantiation tag, the
  two buffers, the two shapes and the axis set, and returning the output buffer.
\<close>

definition evaluate ::
  "(Type_t \<Rightarrow> 'd \<Rightarrow> 'd \<Rightarrow> Shape \<Rightarrow> Shape \<Rightarrow> nat set \<Rightarrow> 'd) \<Rightarrow> Type_t
     \<Rightarrow> 'd HostTensor \<Rightarrow> 'd HostTensor \<Rightarrow> nat set \<Rightarrow> bool \<times> 'd HostTensor" where
  "evaluate reference_broadcast ET arg0 out broadcast_axes =
     (True, out\<lparr>ht_data := reference_broadcast ET (ht_data arg0) (ht_data out)
                               (ht_shape arg0) (ht_shape out) broadcast_axes\<rparr>)"

text \<open>
  \<^verbatim>\<open>evaluate_broadcast\<close>; the result is the returned flag and the output tensor as the
  call leaves it. \<^verbatim>\<open>TYPE_CASE(a)\<close> is a macro declared outside the sources; it is read
  as \<^verbatim>\<open>case element::Type_t::a: rc = evaluate<element::Type_t::a>\<close>.
\<close>

definition evaluate_broadcast ::
  "(Type_t \<Rightarrow> 'd \<Rightarrow> 'd \<Rightarrow> Shape \<Rightarrow> Shape \<Rightarrow> nat set \<Rightarrow> 'd)
     \<Rightarrow> 'd HostTensor \<Rightarrow> 'd HostTensor \<Rightarrow> bool \<times> nat set \<Rightarrow> Shape \<Rightarrow> bool \<times> 'd HostTensor" where
  "evaluate_broadcast reference_broadcast arg0 out pair_broadcast_axes output_shape =
     (if \<not> fst pair_broadcast_axes then (False, out)
      else
        (let out1 = out\<lparr>ht_shape := output_shape\<rparr> in
         case ht_element_type arg0 of
           boolean \<Rightarrow> evaluate reference_broadcast boolean arg0 out1 (snd pair_broadcast_axes)
         | i8 \<Rightarrow> evaluate reference_broadcast i8 arg0 out1 (snd pair_broadcast_axes)
         | i16 \<Rightarrow> evaluate reference_broadcast i16 arg0 out1 (snd pair_broadcast_axes)
         | i32 \<Rightarrow> evaluate reference_broadcast i32 arg0 out1 (snd pair_broadcast_axes)
         | i64 \<Rightarrow> evaluate reference_broadcast i64 arg0 out1 (snd pair_broadcast_axes)
         | u8 \<Rightarrow> evaluate reference_broadcast u8 arg0 out1 (snd pair_broadcast_axes)
         | u16 \<Rightarrow> evaluate reference_broadcast u16 arg0 out1 (snd pair_broadcast_axes)
         | u32 \<Rightarrow> evaluate reference_broadcast u32 arg0 out1 (snd pair_broadcast_axes)
         | u64 \<Rightarrow> evaluate reference_broadcast u64 arg0 out1 (snd pair_broadcast_axes)
         | bf16 \<Rightarrow> evaluate reference_broadcast bf16 arg0 out1 (snd pair_broadcast_axes)
         | f16 \<Rightarrow> evaluate reference_broadcast f16 arg0 out1 (snd pair_broadcast_axes)
         | f32 \<Rightarrow> evaluate reference_broadcast f32 arg0 out1 (snd pair_broadcast_axes)
         | f64 \<Rightarrow> evaluate reference_broadcast f64 arg0 out1 (snd pair_broadcast_axes)
         | other_tag t \<Rightarrow> (False, out1)))"

text \<open>
  \<^verbatim>\<open>BroadcastBase::evaluate\<close>: the arguments \<^verbatim>\<open>inputs[0]\<close>, \<^verbatim>\<open>outputs[0]\<close>,
  \<^verbatim>\<open>get_broadcast_axes()\<close> and \<^verbatim>\<open>get_output_shape(0)\<close> are all computed before
  \<^verbatim>\<open>evaluate_broadcast\<close> is entered. C++ leaves their order open; the model computes
  them left to right, which matters only for which error is reported when two of them
  fail. The result is the returned flag and the output tensors as the call leaves them.
\<close>

definition BroadcastBase_evaluate ::
  "(Type_t \<Rightarrow> 'd \<Rightarrow> 'd \<Rightarrow> Shape \<Rightarrow> Shape \<Rightarrow> nat set \<Rightarrow> 'd) \<Rightarrow> BroadcastBase
     \<Rightarrow> 'd HostTensor list \<Rightarrow> 'd HostTensor list \<Rightarrow> error + (bool \<times> 'd HostTensor list)" where
  "BroadcastBase_evaluate reference_broadcast node outputs inputs =
     (case inputs of
        [] \<Rightarrow> Inl undefined_behaviour
      | arg0 # other_inputs \<Rightarrow>
         (case outputs of
            [] \<Rightarrow> Inl undefined_behaviour
          | out # other_outputs \<Rightarrow>
             (case get_broadcast_axes node of
                Inl e \<Rightarrow> Inl e
              | Inr pair_broadcast_axes \<Rightarrow>
                 (case get_shape (partial_shape (bc_output node)) of
                    Inl e \<Rightarrow> Inl e
                  | Inr output_shape \<Rightarrow>
                      (case evaluate_broadcast reference_broadcast arg0 out
                              pair_broadcast_axes output_shape of
                         (rc, out') \<Rightarrow> Inr (rc, out' # other_outputs))))))"

section \<open>Layout pass: proofs\<close>

lemma layout_outputs_keeps:
  "tv_layout (st t) \<noteq> None \<Longrightarrow> layout_outputs mk tvs st t = st t"
  by (induction tvs arbitrary: st) (auto split: option.splits)

lemma layout_outputs_other:
  "t \<notin> set tvs \<Longrightarrow> layout_outputs mk tvs st t = st t"
  by (induction tvs arbitrary: st) (auto split: option.splits)

lemma layout_outputs_assigned:
  "t \<in> set tvs \<Longrightarrow> tv_layout (layout_outputs mk tvs st t) \<noteq> None"
proof (induction tvs arbitrary: st)
  case Nil
  then show ?case by simp
next
  case (Cons a tvs)
  show ?case
  proof (cases "t \<in> set tvs")
    case True
    then show ?thesis using Cons.IH by (simp split: option.splits)
  next
    case False
    with Cons.prems have ta: "t = a" by simp
    show ?thesis using False ta
      by (auto simp: layout_outputs_other split: option.splits)
  qed
qed

lemma layout_outputs_noop:
  "\<forall>t\<in>set tvs. tv_layout (st t) \<noteq> None \<Longrightarrow> layout_outputs mk tvs st = st"
  by (induction tvs arbitrary: st) (auto split: option.splits)

lemma layout_nodes_keeps:
  "tv_layout (st t) \<noteq> None \<Longrightarrow> layout_nodes mk nodes st t = st t"
proof (induction nodes arbitrary: st)
  case Nil
  then show ?case by simp
next
  case (Cons n nodes)
  have "tv_layout (layout_outputs mk n st t) \<noteq> None"
    using Cons.prems by (simp add: layout_outputs_keeps)
  then have "layout_nodes mk nodes (layout_outputs mk n st) t = layout_outputs mk n st t"
    by (rule Cons.IH)
  then show ?case using Cons.prems by (simp add: layout_outputs_keeps)
qed

lemma layout_nodes_assigned:
  "t \<in> set n \<Longrightarrow> n \<in> set nodes \<Longrightarrow> tv_layout (layout_nodes mk nodes st t) \<noteq> None"
proof (induction nodes arbitrary: st)
  case Nil
  then show ?case by simp
next
  case (Cons a nodes)
  show ?case
  proof (cases "n = a")
    case True
    then have "tv_layout (layout_outputs mk a st t) \<noteq> None"
      using Cons.prems(1) by (simp add: layout_outputs_assigned)
    then show ?thesis by (simp add: layout_nodes_keeps)
  next
    case False
    then show ?thesis using Cons by simp
  qed
qed

lemma layout_nodes_noop:
  "\<forall>n\<in>set nodes. \<forall>t\<in>set n. tv_layout (st t) \<noteq> None \<Longrightarrow> layout_nodes mk nodes st = st"
  by (induction nodes arbitrary: st) (simp_all add: layout_outputs_noop)

text \<open>
  C9. The layout pass reports no structural change (it returns false), leaves every
  tensor view that already carries a layout descriptor exactly as it was, and a
  second run over the same node list changes nothing: it returns false again and
  the store after two runs is the store after one.
\<close>

theorem layout_pass_idempotent:
  "fst (run_on_call_graph mk nodes st) = False
   \<and> (\<forall>t. tv_layout (st t) \<noteq> None \<longrightarrow> snd (run_on_call_graph mk nodes st) t = st t)
   \<and> run_on_call_graph mk nodes (snd (run_on_call_graph mk nodes st))
       = (False, snd (run_on_call_graph mk nodes st))"
proof -
  have "layout_nodes mk nodes (layout_nodes mk nodes st) = layout_nodes mk nodes st"
    by (rule layout_nodes_noop) (simp add: layout_nodes_assigned)
  then show ?thesis
    by (simp add: run_on_call_graph_def layout_nodes_keeps)
qed

theorem layout_pass_idempotent_witness:
  "tv_layout (((\<lambda>_. \<lparr>tv_shape = [2, 3], tv_layout = None\<rparr>)
                (1 := \<lparr>tv_shape = [4], tv_layout = Some (7::nat)\<rparr>)) 1) \<noteq> None
   \<and> snd (run_on_call_graph (\<lambda>v. length (tv_shape v)) [[0, 1], [2]]
            ((\<lambda>_. \<lparr>tv_shape = [2, 3], tv_layout = None\<rparr>)
               (1 := \<lparr>tv_shape = [4], tv_layout = Some (7::nat)\<rparr>))) 1
       = \<lparr>tv_shape = [4], tv_layout = Some (7::nat)\<rparr>
   \<and> tv_layout (snd (run_on_call_graph (\<lambda>v. length (tv_shape v)) [[0, 1], [2]]
            ((\<lambda>_. \<lparr>tv_shape = [2, 3], tv_layout = None\<rparr>)
               (1 := \<lparr>tv_shape = [4], tv_layout = Some (7::nat)\<rparr>))) 2) = Some 2"
  using layout_pass_idempotent [of "\<lambda>v. length (tv_shape v)" "[[0, 1], [2]]"
      "(\<lambda>_. \<lparr>tv_shape = [2, 3], tv_layout = None\<rparr>)
         (1 := \<lparr>tv_shape = [4], tv_layout = Some (7::nat)\<rparr>)"]
  by (simp add: run_on_call_graph_def)

section \<open>Squeeze: proofs\<close>

lemma get_shape_static [simp]: "get_shape (Ranked (map Static S)) = Inr S"
  by (simp add: list_all_iff comp_def)

lemma all_static_map_Static [simp]: "list_all is_static_dim (map Static S)"
  by (simp add: list_all_iff)

lemma normalize_axes_in_range:
  "\<forall>a\<in>set L. - int n \<le> a \<and> a < int n \<Longrightarrow>
   normalize_axes n L = Inr (map (\<lambda>a. nat (if a < 0 then a + int n else a)) L)"
  by (induction L) (simp_all add: normalize_axis_def)

lemma squeeze_axes_loop_static_ok:
  "\<forall>a\<in>set xs. a < length S \<and> S ! a = 1 \<Longrightarrow> length ats = length S \<Longrightarrow>
   \<exists>ats'. squeeze_axes_loop (Ranked (map Static S)) xs ats = Inr ats'
      \<and> length ats' = length S
      \<and> (\<forall>i<length S. ats' ! i = (if i \<in> set xs then 1 else ats ! i))"
proof (induction xs arbitrary: ats)
  case Nil
  then show ?case by simp
next
  case (Cons a xs)
  have len: "length (ats[a := 1]) = length S" using Cons.prems by simp
  from Cons.IH [OF _ len] Cons.prems(1)
  obtain ats' where r: "squeeze_axes_loop (Ranked (map Static S)) xs (ats[a := 1]) = Inr ats'"
    and l: "length ats' = length S"
    and v: "\<forall>i<length S. ats' ! i = (if i \<in> set xs then 1 else ats[a := 1] ! i)"
    by auto
  have "squeeze_axes_loop (Ranked (map Static S)) (a # xs) ats = Inr ats'"
    using Cons.prems r by (simp add: is_dynamic_def)
  moreover have "\<forall>i<length S. ats' ! i = (if i \<in> set (a # xs) then 1 else ats ! i)"
    using v Cons.prems by (auto simp: nth_list_update)
  ultimately show ?case using l by blast
qed

lemma squeeze_axes_loop_static_fail:
  "\<forall>a\<in>set xs. a < length S \<Longrightarrow> length ats = length S \<Longrightarrow> \<exists>a\<in>set xs. S ! a \<noteq> 1 \<Longrightarrow>
   squeeze_axes_loop (Ranked (map Static S)) xs ats = Inl (NodeValidationFailure
      ''provided axis value is invalid. Only axes of size 1 may be removed.'')"
proof (induction xs arbitrary: ats)
  case Nil
  then show ?case by simp
next
  case (Cons a xs)
  show ?case
  proof (cases "S ! a = 1")
    case True
    with Cons.prems have "\<exists>a\<in>set xs. S ! a \<noteq> 1" by auto
    with Cons.IH [of "ats[a := 1]"] Cons.prems True show ?thesis
      by (simp add: is_dynamic_def)
  next
    case False
    with Cons.prems show ?thesis by (simp add: is_dynamic_def)
  qed
qed

lemma set_unique_axes [simp]: "set (unique_axes axes) = set axes"
  by (simp add: unique_axes_def)

lemma length_kept_positions:
  assumes "A \<subseteq> {..<n}"
  shows "length (filter (\<lambda>i. i \<notin> A) [0..<n]) = n - card A"
proof -
  have "length (filter (\<lambda>i. i \<notin> A) [0..<n]) = card (set (filter (\<lambda>i. i \<notin> A) [0..<n]))"
    by (rule distinct_card [symmetric]) simp
  also have "set (filter (\<lambda>i. i \<notin> A) [0..<n]) = {..<n} - A" by auto
  also have "card ({..<n} - A) = n - card A"
    using assms by (simp add: card_Diff_subset finite_subset)
  finally show ?thesis .
qed


lemma static_dims_shape:
  "list_all is_static_dim ds \<Longrightarrow> map Static (map get_length ds) = ds"
proof (induction ds)
  case Nil
  then show ?case by simp
next
  case (Cons d ds)
  then show ?case by (cases d) simp_all
qed

lemma is_static_shape: "is_static ps \<Longrightarrow> \<exists>sh. ps = to_partial sh"
proof (cases ps)
  case RankDynamic
  assume "is_static ps"
  with RankDynamic show ?thesis by simp
next
  case (Ranked ds)
  assume "is_static ps"
  with Ranked have "ps = to_partial (map get_length ds)"
    using static_dims_shape [of ds] by (simp add: to_partial_def)
  then show ?thesis by blast
qed

lemma get_axes_static:
  assumes "partial_shape (data node) = Ranked (map Static S)"
      and "axes_constant node = Some L"
      and "\<forall>a\<in>set L. - int (length S) \<le> a \<and> a < int (length S)"
  shows "\<exists>axes. get_axes node = Inr axes
     \<and> set axes = (if L = [] then {i. i < length S \<and> S ! i = 1}
                   else (\<lambda>a. nat (if a < 0 then a + int (length S) else a)) ` set L)"
proof (cases "L = []")
  case True
  then show ?thesis using assms by (auto simp: get_axes_def)
next
  case False
  then show ?thesis using assms normalize_axes_in_range [OF assms(3)]
    by (simp add: get_axes_def)
qed

lemma normalized_in_range:
  "- int n \<le> a \<Longrightarrow> a < int n \<Longrightarrow> nat (if a < 0 then a + int n else a) < n"
  by auto

text \<open>
  C5 (as amended). For a fully static data shape \<open>S\<close> and a constant axes list \<open>L\<close>
  whose entries are valid for the rank, let \<open>A\<close> be the set of normalised axes of
  \<open>L\<close> (negative indices resolved, duplicates merged) or, when \<open>L\<close> is empty, the set
  of all positions of \<open>S\<close> whose dimension is 1. If every dimension of \<open>S\<close> at a
  position in \<open>A\<close> is 1, shape inference succeeds, keeps the element type of the data,
  and the output shape consists of the dimensions of \<open>S\<close> at the positions outside
  \<open>A\<close>, in their original order; its rank is \<open>rank S - |A|\<close>.
\<close>

theorem squeeze_static_shape:
  assumes "partial_shape (data node) = Ranked (map Static S)"
      and "axes_constant node = Some L"
      and "\<forall>a\<in>set L. - int (length S) \<le> a \<and> a < int (length S)"
      and "A = (if L = [] then {i. i < length S \<and> S ! i = 1}
                else (\<lambda>a. nat (if a < 0 then a + int (length S) else a)) ` set L)"
      and "\<forall>i\<in>A. S ! i = 1"
  shows "pre_validate_and_infer_types node =
           Inr (node\<lparr>sq_output := \<lparr>element_type = element_type (data node),
                  partial_shape = Ranked (map (\<lambda>i. Static (S ! i))
                                    (filter (\<lambda>i. i \<notin> A) [0..<length S]))\<rparr>\<rparr>)
         \<and> length (filter (\<lambda>i. i \<notin> A) [0..<length S]) = length S - card A"
proof -
  from get_axes_static [OF assms(1-3)] assms(4)
  obtain axes where ga: "get_axes node = Inr axes" and sa: "set axes = A" by auto
  have nr: "nat (if a < 0 then a + int (length S) else a) < length S" if "a \<in> set L" for a
    using assms(3) that by (intro normalized_in_range) auto
  have sub: "A \<subseteq> {..<length S}"
  proof (cases "L = []")
    case True
    then show ?thesis using assms(4) by auto
  next
    case False
    then have "A = (\<lambda>a. nat (if a < 0 then a + int (length S) else a)) ` set L"
      using assms(4) by simp
    then show ?thesis using nr by blast
  qed
  have ok: "\<forall>a\<in>set (unique_axes axes). a < length S \<and> S ! a = 1"
    using sa sub assms(5) by auto
  from squeeze_axes_loop_static_ok [OF ok, of "replicate (length S) 0"]
  obtain ats where r: "squeeze_axes_loop (Ranked (map Static S)) (unique_axes axes)
                          (replicate (length S) 0) = Inr ats"
    and v: "\<forall>i<length S. ats ! i = (if i \<in> set (unique_axes axes) then 1 else replicate (length S) 0 ! i)"
    by auto
  have f: "filter (\<lambda>idx. ats ! idx = 0) [0..<length S] = filter (\<lambda>i. i \<notin> A) [0..<length S]"
    using v sa by (intro filter_cong) auto
  have m: "map (\<lambda>idx. map Static S ! idx) (filter (\<lambda>i. i \<notin> A) [0..<length S])
           = map (\<lambda>i. Static (S ! i)) (filter (\<lambda>i. i \<notin> A) [0..<length S])"
    by (intro map_cong) auto
  have "pre_validate_and_infer_types node =
           Inr (node\<lparr>sq_output := \<lparr>element_type = element_type (data node),
                  partial_shape = Ranked (map (\<lambda>i. Static (S ! i))
                                    (filter (\<lambda>i. i \<notin> A) [0..<length S]))\<rparr>\<rparr>)"
    using assms(1,2) ga r f m
    by (simp add: pre_validate_and_infer_types_def is_dynamic_def sq_set_output_type_def)
  then show ?thesis using length_kept_positions [OF sub] by simp
qed

lemma squeeze_axes_loop_dynamic:
  "is_dynamic ps \<Longrightarrow> \<forall>a\<in>set xs. a < length ats \<Longrightarrow>
   \<exists>ats'. squeeze_axes_loop ps xs ats = Inr ats' \<and> length ats' = length ats
      \<and> (\<forall>i<length ats. ats' ! i = (if i \<in> set xs then 1 else ats ! i))"
proof (induction xs arbitrary: ats)
  case Nil
  then show ?case by simp
next
  case (Cons a xs)
  have rng: "\<forall>b\<in>set xs. b < length (ats[a := 1])" using Cons.prems(2) by simp
  from Cons.IH [OF Cons.prems(1) rng]
  obtain ats' where r: "squeeze_axes_loop ps xs (ats[a := 1]) = Inr ats'"
    and l: "length ats' = length ats"
    and v: "\<forall>i<length ats. ats' ! i = (if i \<in> set xs then 1 else ats[a := 1] ! i)"
    by auto
  have "squeeze_axes_loop ps (a # xs) ats = Inr ats'"
    using Cons.prems r by simp
  moreover have "\<forall>i<length ats. ats' ! i = (if i \<in> set (a # xs) then 1 else ats ! i)"
    using v Cons.prems(2) by (auto simp: nth_list_update)
  ultimately show ?case using l by blast
qed

text \<open>
  C3 (as amended). For a Squeeze with a constant non-empty axes list whose entries are
  valid for the known data rank, with \<open>A\<close> the set of normalised axes. If the data
  shape is fully static and the dimension at some removed axis is not 1, shape
  inference fails validation. If the data shape is only partially known, no removed
  dimension is checked: inference succeeds and the output shape consists of the
  dimensions at the positions outside \<open>A\<close>, in their original order.
\<close>

theorem squeeze_non_unit_axis:
  assumes ac: "axes_constant node = Some L"
      and ne: "L \<noteq> []"
      and ps: "partial_shape (data node) = Ranked ds"
      and rng: "\<forall>a\<in>set L. - int (length ds) \<le> a \<and> a < int (length ds)"
      and A: "A = (\<lambda>a. nat (if a < 0 then a + int (length ds) else a)) ` set L"
  shows "(list_all is_static_dim ds \<and> (\<exists>i\<in>A. ds ! i \<noteq> Static 1) \<longrightarrow>
            pre_validate_and_infer_types node = Inl (NodeValidationFailure
              ''provided axis value is invalid. Only axes of size 1 may be removed.''))
       \<and> (\<not> list_all is_static_dim ds \<longrightarrow>
            pre_validate_and_infer_types node =
              Inr (node\<lparr>sq_output := \<lparr>element_type = element_type (data node),
                     partial_shape = Ranked (map (\<lambda>i. ds ! i)
                                       (filter (\<lambda>i. i \<notin> A) [0..<length ds]))\<rparr>\<rparr>))"
proof (intro conjI impI)
  assume st: "list_all is_static_dim ds \<and> (\<exists>i\<in>A. ds ! i \<noteq> Static 1)"
  define S where "S = map get_length ds"
  have dsS: "ds = map Static S"
    unfolding S_def using st static_dims_shape [of ds] by (simp only: simp_thms)
  have lS: "length S = length ds" by (simp add: S_def)
  have ps': "partial_shape (data node) = Ranked (map Static S)" using ps dsS by simp
  have rng': "\<forall>a\<in>set L. - int (length S) \<le> a \<and> a < int (length S)" using rng lS by simp
  from get_axes_static [OF ps' ac rng'] ne
  obtain axes where ga: "get_axes node = Inr axes"
    and sa: "set axes = (\<lambda>a. nat (if a < 0 then a + int (length S) else a)) ` set L" by auto
  have saA: "set axes = A" by (simp only: sa A lS)
  have nr: "nat (if a < 0 then a + int (length ds) else a) < length ds" if "a \<in> set L" for a
    using rng that by (intro normalized_in_range) auto
  have sub: "\<forall>i\<in>A. i < length ds" unfolding A using nr by blast
  have inr: "\<forall>a\<in>set (unique_axes axes). a < length S"
    unfolding set_unique_axes saA using sub lS by simp
  from st obtain i where i: "i \<in> A" "ds ! i \<noteq> Static 1" by blast
  with sub have "i < length S" using lS by simp
  with i(2) dsS have "S ! i \<noteq> 1" by auto
  with i(1) have bad: "\<exists>a\<in>set (unique_axes axes). S ! a \<noteq> 1"
    unfolding set_unique_axes saA by blast
  have "squeeze_axes_loop (Ranked (map Static S)) (unique_axes axes) (replicate (length S) 0)
          = Inl (NodeValidationFailure
              ''provided axis value is invalid. Only axes of size 1 may be removed.'')"
    by (rule squeeze_axes_loop_static_fail [OF inr _ bad]) simp
  then show "pre_validate_and_infer_types node = Inl (NodeValidationFailure
              ''provided axis value is invalid. Only axes of size 1 may be removed.'')"
    using ps' ac ne ga
    by (simp add: pre_validate_and_infer_types_def is_dynamic_def)
next
  assume dyn: "\<not> list_all is_static_dim ds"
  have idyn: "is_dynamic (Ranked ds)" using dyn by (simp add: is_dynamic_def)
  have ga: "get_axes node = Inr (map (\<lambda>a. nat (if a < 0 then a + int (length ds) else a)) L)"
    using ps ac ne normalize_axes_in_range [OF rng] by (simp add: get_axes_def)
  let ?axes = "map (\<lambda>a. nat (if a < 0 then a + int (length ds) else a)) L"
  have saA: "set ?axes = A" using A by simp
  have nr: "nat (if a < 0 then a + int (length ds) else a) < length ds" if "a \<in> set L" for a
    using rng that by (intro normalized_in_range) auto
  have sub: "\<forall>i\<in>A. i < length ds" unfolding A using nr by blast
  have inr: "\<forall>a\<in>set (unique_axes ?axes). a < length (replicate (length ds) (0::nat))"
    unfolding set_unique_axes saA using sub by simp
  from squeeze_axes_loop_dynamic [OF idyn inr]
  obtain ats where r: "squeeze_axes_loop (Ranked ds) (unique_axes ?axes)
                          (replicate (length ds) 0) = Inr ats"
    and v: "\<forall>i<length ds. ats ! i = (if i \<in> set (unique_axes ?axes) then 1
                                        else replicate (length ds) 0 ! i)"
    by auto
  have f: "filter (\<lambda>idx. ats ! idx = 0) [0..<length ds] = filter (\<lambda>i. i \<notin> A) [0..<length ds]"
    using v saA by (intro filter_cong) auto
  show "pre_validate_and_infer_types node =
              Inr (node\<lparr>sq_output := \<lparr>element_type = element_type (data node),
                     partial_shape = Ranked (map (\<lambda>i. ds ! i)
                                       (filter (\<lambda>i. i \<notin> A) [0..<length ds]))\<rparr>\<rparr>)"
    using ps ac ne ga r f idyn
    by (simp add: pre_validate_and_infer_types_def sq_set_output_type_def)
qed

text \<open>
  What \<^verbatim>\<open>decompose_op\<close> does where its reads are defined: it fails validation when the
  inferred output shape is not fully static; when the output shape and the shape of
  the data input are both static, it returns exactly one Reshape over the original
  data input, with the identity input order \<open>0, ..., rank - 1\<close> of the data and the
  inferred output shape.
\<close>

lemma squeeze_decompose_op:
  "(\<not> is_static (partial_shape (sq_output node)) \<longrightarrow>
      decompose_op node = Inl (NodeValidationFailure
        ''output shape was not calculated during pre_validate_and_infer_types. Can not decompose.''))
   \<and> (is_static (partial_shape (sq_output node)) \<and> is_static (partial_shape (data node)) \<longrightarrow>
       (\<exists>data_shape output_data_shape.
          partial_shape (data node) = to_partial data_shape
          \<and> partial_shape (sq_output node) = to_partial output_data_shape
          \<and> decompose_op node = Inr [\<lparr>reshape_arg = data node,
                                       input_order = [0..<length data_shape],
                                       reshape_output_shape = output_data_shape\<rparr>]))"
proof (intro conjI impI)
  assume "\<not> is_static (partial_shape (sq_output node))"
  then show "decompose_op node = Inl (NodeValidationFailure
        ''output shape was not calculated during pre_validate_and_infer_types. Can not decompose.'')"
    by (simp add: decompose_op_def)
next
  assume st: "is_static (partial_shape (sq_output node)) \<and> is_static (partial_shape (data node))"
  from st is_static_shape [of "partial_shape (data node)"]
  obtain ds where d: "partial_shape (data node) = to_partial ds" by auto
  from st is_static_shape [of "partial_shape (sq_output node)"]
  obtain os where o: "partial_shape (sq_output node) = to_partial os" by auto
  have "decompose_op node = Inr [\<lparr>reshape_arg = data node, input_order = [0..<length ds],
                                  reshape_output_shape = os\<rparr>]"
    using d o by (simp add: decompose_op_def to_partial_def get_default_order_def comp_def)
  then show "\<exists>data_shape output_data_shape.
          partial_shape (data node) = to_partial data_shape
          \<and> partial_shape (sq_output node) = to_partial output_data_shape
          \<and> decompose_op node = Inr [\<lparr>reshape_arg = data node,
                                       input_order = [0..<length data_shape],
                                       reshape_output_shape = output_data_shape\<rparr>]"
    using d o by blast
qed


text \<open>
  The examples of the specification: data shape \<open>{2,1,3}\<close> with axis list \<open>{0}\<close> fails,
  with axis list \<open>{1}\<close> it yields \<open>{2,3}\<close>; and data \<open>{?,4,3}\<close> with axis list \<open>{-2}\<close>
  yields \<open>{?,3}\<close> although the removed dimension is 4.
\<close>

theorem squeeze_non_unit_axis_witness:
  "pre_validate_and_infer_types
     \<lparr>data = \<lparr>element_type = f32, partial_shape = Ranked [Static 2, Static 1, Static 3]\<rparr>,
      axes_constant = Some [0],
      sq_output = \<lparr>element_type = f32, partial_shape = RankDynamic\<rparr>\<rparr>
   = Inl (NodeValidationFailure
           ''provided axis value is invalid. Only axes of size 1 may be removed.'')
   \<and> pre_validate_and_infer_types
     \<lparr>data = \<lparr>element_type = f32, partial_shape = Ranked [Static 2, Static 1, Static 3]\<rparr>,
      axes_constant = Some [1],
      sq_output = \<lparr>element_type = f32, partial_shape = RankDynamic\<rparr>\<rparr>
   = Inr \<lparr>data = \<lparr>element_type = f32, partial_shape = Ranked [Static 2, Static 1, Static 3]\<rparr>,
      axes_constant = Some [1],
      sq_output = \<lparr>element_type = f32, partial_shape = Ranked [Static 2, Static 3]\<rparr>\<rparr>
   \<and> pre_validate_and_infer_types
     \<lparr>data = \<lparr>element_type = f32, partial_shape = Ranked [Dynamic, Static 4, Static 3]\<rparr>,
      axes_constant = Some [- 2],
      sq_output = \<lparr>element_type = f32, partial_shape = RankDynamic\<rparr>\<rparr>
   = Inr \<lparr>data = \<lparr>element_type = f32, partial_shape = Ranked [Dynamic, Static 4, Static 3]\<rparr>,
      axes_constant = Some [- 2],
      sq_output = \<lparr>element_type = f32, partial_shape = Ranked [Dynamic, Static 3]\<rparr>\<rparr>"
proof (intro conjI)
  show "pre_validate_and_infer_types
     \<lparr>data = \<lparr>element_type = f32, partial_shape = Ranked [Static 2, Static 1, Static 3]\<rparr>,
      axes_constant = Some [0],
      sq_output = \<lparr>element_type = f32, partial_shape = RankDynamic\<rparr>\<rparr>
   = Inl (NodeValidationFailure
           ''provided axis value is invalid. Only axes of size 1 may be removed.'')"
    using squeeze_non_unit_axis [where L = "[0]" and ds = "[Static 2, Static 1, Static 3]"
      and A = "{0}" and node = "\<lparr>data = \<lparr>element_type = f32,
               partial_shape = Ranked [Static 2, Static 1, Static 3]\<rparr>,
      axes_constant = Some [0],
      sq_output = \<lparr>element_type = f32, partial_shape = RankDynamic\<rparr>\<rparr>"]
    by simp
next
  show "pre_validate_and_infer_types
     \<lparr>data = \<lparr>element_type = f32, partial_shape = Ranked [Static 2, Static 1, Static 3]\<rparr>,
      axes_constant = Some [1],
      sq_output = \<lparr>element_type = f32, partial_shape = RankDynamic\<rparr>\<rparr>
   = Inr \<lparr>data = \<lparr>element_type = f32, partial_shape = Ranked [Static 2, Static 1, Static 3]\<rparr>,
      axes_constant = Some [1],
      sq_output = \<lparr>element_type = f32, partial_shape = Ranked [Static 2, Static 3]\<rparr>\<rparr>"
    by (simp add: pre_validate_and_infer_types_def get_axes_def is_dynamic_def
          normalize_axis_def unique_axes_def sq_set_output_type_def)
next
  show "pre_validate_and_infer_types
     \<lparr>data = \<lparr>element_type = f32, partial_shape = Ranked [Dynamic, Static 4, Static 3]\<rparr>,
      axes_constant = Some [- 2],
      sq_output = \<lparr>element_type = f32, partial_shape = RankDynamic\<rparr>\<rparr>
   = Inr \<lparr>data = \<lparr>element_type = f32, partial_shape = Ranked [Dynamic, Static 4, Static 3]\<rparr>,
      axes_constant = Some [- 2],
      sq_output = \<lparr>element_type = f32, partial_shape = Ranked [Dynamic, Static 3]\<rparr>\<rparr>"
    using squeeze_non_unit_axis [where L = "[- 2]" and ds = "[Dynamic, Static 4, Static 3]"
      and A = "{1}" and node = "\<lparr>data = \<lparr>element_type = f32,
               partial_shape = Ranked [Dynamic, Static 4, Static 3]\<rparr>,
      axes_constant = Some [- 2],
      sq_output = \<lparr>element_type = f32, partial_shape = RankDynamic\<rparr>\<rparr>"]
    by (simp add: upt_conv_Cons)
qed

text \<open>
  C3 as stated fails when the data shape is only partially known: the loop checks a
  dimension only under \<^verbatim>\<open>!data_has_dynamic_shape\<close>. With data \<open>{2,?,3}\<close> and axis list
  \<open>{0}\<close> the removed dimension is statically 2, and inference succeeds with \<open>{?,3}\<close>.
\<close>

theorem squeeze_partial_shape_counterexample:
  "pre_validate_and_infer_types
     \<lparr>data = \<lparr>element_type = f32, partial_shape = Ranked [Static 2, Dynamic, Static 3]\<rparr>,
      axes_constant = Some [0],
      sq_output = \<lparr>element_type = f32, partial_shape = RankDynamic\<rparr>\<rparr>
   = Inr \<lparr>data = \<lparr>element_type = f32, partial_shape = Ranked [Static 2, Dynamic, Static 3]\<rparr>,
      axes_constant = Some [0],
      sq_output = \<lparr>element_type = f32, partial_shape = Ranked [Dynamic, Static 3]\<rparr>\<rparr>"
  by (simp add: pre_validate_and_infer_types_def get_axes_def is_dynamic_def
        normalize_axis_def unique_axes_def sq_set_output_type_def)

theorem squeeze_static_shape_witness:
  "pre_validate_and_infer_types
     \<lparr>data = \<lparr>element_type = i32,
               partial_shape = Ranked [Static 2, Static 1, Static 3, Static 1]\<rparr>,
      axes_constant = Some [- 1, 1, 1],
      sq_output = \<lparr>element_type = f32, partial_shape = RankDynamic\<rparr>\<rparr>
   = Inr \<lparr>data = \<lparr>element_type = i32,
               partial_shape = Ranked [Static 2, Static 1, Static 3, Static 1]\<rparr>,
      axes_constant = Some [- 1, 1, 1],
      sq_output = \<lparr>element_type = i32, partial_shape = Ranked [Static 2, Static 3]\<rparr>\<rparr>"
  using squeeze_static_shape [where S = "[2, 1, 3, 1]" and L = "[- 1, 1, 1]" and A = "{3, 1}"
     and node = "\<lparr>data = \<lparr>element_type = i32,
               partial_shape = Ranked [Static 2, Static 1, Static 3, Static 1]\<rparr>,
      axes_constant = Some [- 1, 1, 1],
      sq_output = \<lparr>element_type = f32, partial_shape = RankDynamic\<rparr>\<rparr>"]
  by (simp add: upt_conv_Cons)

text \<open>
  C5 as stated fails for the empty axis list, which \<^verbatim>\<open>get_axes\<close> reads as "every
  dimension equal to 1": data \<open>{1,2}\<close> with the empty list yields \<open>{2}\<close>, of rank 1 and
  not \<open>2 - 0\<close>.
\<close>

theorem squeeze_empty_axes_counterexample:
  "pre_validate_and_infer_types
     \<lparr>data = \<lparr>element_type = f32, partial_shape = Ranked [Static 1, Static 2]\<rparr>,
      axes_constant = Some [],
      sq_output = \<lparr>element_type = f32, partial_shape = RankDynamic\<rparr>\<rparr>
   = Inr \<lparr>data = \<lparr>element_type = f32, partial_shape = Ranked [Static 1, Static 2]\<rparr>,
      axes_constant = Some [],
      sq_output = \<lparr>element_type = f32, partial_shape = Ranked [Static 2]\<rparr>\<rparr>
   \<and> length [Static 2] \<noteq> length [1::nat, 2] - card (set ([] :: int list))"
  by (simp add: pre_validate_and_infer_types_def get_axes_def is_dynamic_def
        unique_axes_def sq_set_output_type_def)

text \<open>
  C8. Decomposition is to return one Reshape whenever the inferred output shape is
  static. For data \<open>{?,2}\<close> and axis list \<open>{0}\<close> inference gives the static output shape
  \<open>{2}\<close>, the check of \<^verbatim>\<open>decompose_op\<close> passes, and \<^verbatim>\<open>data.get_shape()\<close>, called only
  for the rank of the data, then throws: no Reshape is returned.
\<close>

theorem squeeze_decompose_op_dynamic_data_throws:
  "pre_validate_and_infer_types
     \<lparr>data = \<lparr>element_type = f32, partial_shape = Ranked [Dynamic, Static 2]\<rparr>,
      axes_constant = Some [0],
      sq_output = \<lparr>element_type = f32, partial_shape = RankDynamic\<rparr>\<rparr>
   = Inr \<lparr>data = \<lparr>element_type = f32, partial_shape = Ranked [Dynamic, Static 2]\<rparr>,
      axes_constant = Some [0],
      sq_output = \<lparr>element_type = f32, partial_shape = Ranked [Static 2]\<rparr>\<rparr>
   \<and> is_static (Ranked [Static 2])
   \<and> decompose_op
     \<lparr>data = \<lparr>element_type = f32, partial_shape = Ranked [Dynamic, Static 2]\<rparr>,
      axes_constant = Some [0],
      sq_output = \<lparr>element_type = f32, partial_shape = Ranked [Static 2]\<rparr>\<rparr>
   = Inl std_invalid_argument"
  by (simp add: pre_validate_and_infer_types_def get_axes_def is_dynamic_def
        normalize_axis_def unique_axes_def sq_set_output_type_def decompose_op_def)

lemma squeeze_decompose_op_examples:
  "decompose_op
     \<lparr>data = \<lparr>element_type = f32, partial_shape = Ranked [Static 2, Static 1, Static 3]\<rparr>,
      axes_constant = Some [1],
      sq_output = \<lparr>element_type = f32, partial_shape = RankDynamic\<rparr>\<rparr>
   = Inl (NodeValidationFailure
        ''output shape was not calculated during pre_validate_and_infer_types. Can not decompose.'')
   \<and> decompose_op
     \<lparr>data = \<lparr>element_type = f32, partial_shape = Ranked [Static 2, Static 1, Static 3]\<rparr>,
      axes_constant = Some [1],
      sq_output = \<lparr>element_type = f32, partial_shape = Ranked [Static 2, Static 3]\<rparr>\<rparr>
   = Inr [\<lparr>reshape_arg = \<lparr>element_type = f32,
                            partial_shape = Ranked [Static 2, Static 1, Static 3]\<rparr>,
           input_order = [0, 1, 2], reshape_output_shape = [2, 3]\<rparr>]"
  using squeeze_decompose_op [of "\<lparr>data = \<lparr>element_type = f32,
               partial_shape = Ranked [Static 2, Static 1, Static 3]\<rparr>,
      axes_constant = Some [1],
      sq_output = \<lparr>element_type = f32, partial_shape = RankDynamic\<rparr>\<rparr>"]
    squeeze_decompose_op [of "\<lparr>data = \<lparr>element_type = f32,
               partial_shape = Ranked [Static 2, Static 1, Static 3]\<rparr>,
      axes_constant = Some [1],
      sq_output = \<lparr>element_type = f32, partial_shape = Ranked [Static 2, Static 3]\<rparr>\<rparr>"]
  by (auto simp: to_partial_def upt_conv_Cons)

section \<open>Broadcast: proofs\<close>

lemma map_get_length_Static [simp]: "map (get_length \<circ> Static) sh = sh"
  by (simp add: comp_def)

lemma get_shape_to_partial [simp]: "get_shape (to_partial sh) = Inr sh"
  unfolding to_partial_def by (rule get_shape_static)

lemma is_static_to_partial [simp]: "is_static (to_partial sh)"
  unfolding to_partial_def by simp

lemma check_shape_inputs_cases:
  "check_shape_inputs node = Inr () \<or> (\<exists>msg. check_shape_inputs node = Inl (NodeValidationFailure msg))"
  by (simp add: check_shape_inputs_def)

lemma numpy_pdpd_loop_aligned_fail:
  "sorted idxs \<Longrightarrow> \<forall>j\<in>set idxs. s \<le> j \<and> j < length ds \<Longrightarrow>
   \<exists>i\<in>set idxs. i - s < length arg_shape
      \<and> \<not> (arg_shape ! (i - s) = 1 \<or> target ! i = 1 \<or> arg_shape ! (i - s) = target ! i) \<Longrightarrow>
   \<exists>msg. numpy_pdpd_loop arg_shape target s idxs ds = Inl (NodeValidationFailure msg)"
proof (induction idxs arbitrary: ds)
  case Nil
  then show ?case by simp
next
  case (Cons j idxs)
  from Cons.prems(3) obtain i where i: "i \<in> set (j # idxs)" "i - s < length arg_shape"
    "\<not> (arg_shape ! (i - s) = 1 \<or> target ! i = 1 \<or> arg_shape ! (i - s) = target ! i)"
    by blast
  have ji: "j \<le> i" using i(1) Cons.prems(1) by auto
  have sj: "s \<le> j" using Cons.prems(2) by simp
  have jr: "j - s < length arg_shape" using ji sj i(2) by arith
  show ?case
  proof (cases "arg_shape ! (j - s) = 1 \<or> target ! j = 1 \<or> arg_shape ! (j - s) = target ! j")
    case False
    with jr show ?thesis by simp
  next
    case True
    with i have "i \<noteq> j" by auto
    with i have bad: "\<exists>i\<in>set idxs. i - s < length arg_shape
      \<and> \<not> (arg_shape ! (i - s) = 1 \<or> target ! i = 1 \<or> arg_shape ! (i - s) = target ! i)"
      by auto
    have srt: "sorted idxs" using Cons.prems(1) by simp
    have rng: "\<forall>k\<in>set idxs. s \<le> k
                 \<and> k < length (ds[j := Static (max (arg_shape ! (j - s)) (target ! j))])"
      using Cons.prems(2) by simp
    from Cons.IH [OF srt rng bad] True jr Cons.prems(2) show ?thesis by auto
  qed
qed

lemma numpy_pdpd_loop_success:
  "numpy_pdpd_loop arg_shape target s idxs ds = Inr ds' \<Longrightarrow>
   length ds' = length ds
   \<and> (\<forall>j<length ds. ds' ! j = (if j \<in> set idxs
          then Static (max (arg_shape ! (j - s)) (target ! j)) else ds ! j))"
proof (induction idxs arbitrary: ds)
  case Nil
  then show ?case by simp
next
  case (Cons i idxs)
  let ?ds = "ds[i := Static (max (arg_shape ! (i - s)) (target ! i))]"
  from Cons.prems have r: "numpy_pdpd_loop arg_shape target s idxs ?ds = Inr ds'"
    by (simp split: if_splits)
  from Cons.IH [OF r] have l: "length ds' = length ds"
    and v: "\<forall>j<length ds. ds' ! j = (if j \<in> set idxs
            then Static (max (arg_shape ! (j - s)) (target ! j)) else ?ds ! j)"
    by simp_all
  have "\<forall>j<length ds. ds' ! j = (if j \<in> set (i # idxs)
            then Static (max (arg_shape ! (j - s)) (target ! j)) else ds ! j)"
    using v by (auto simp: nth_list_update)
  with l show ?case by simp
qed

lemma numpy_pdpd_loop_ok:
  "\<forall>i\<in>set idxs. i - s < length arg_shape \<and> i < length ds \<Longrightarrow>
   \<forall>i\<in>set idxs. arg_shape ! (i - s) = 1 \<or> target ! i = 1 \<or> arg_shape ! (i - s) = target ! i \<Longrightarrow>
   \<exists>ds'. numpy_pdpd_loop arg_shape target s idxs ds = Inr ds' \<and> length ds' = length ds
     \<and> (\<forall>j<length ds. ds' ! j = (if j \<in> set idxs
            then Static (max (arg_shape ! (j - s)) (target ! j)) else ds ! j))"
proof (induction idxs arbitrary: ds)
  case Nil
  then show ?case by simp
next
  case (Cons i idxs)
  let ?ds = "ds[i := Static (max (arg_shape ! (i - s)) (target ! i))]"
  have rng: "\<forall>j\<in>set idxs. j - s < length arg_shape \<and> j < length ?ds"
    using Cons.prems(1) by simp
  have ok: "\<forall>i\<in>set idxs. arg_shape ! (i - s) = 1 \<or> target ! i = 1 \<or> arg_shape ! (i - s) = target ! i"
    using Cons.prems(2) by simp
  from Cons.IH [OF rng ok]
  obtain ds' where r: "numpy_pdpd_loop arg_shape target s idxs ?ds = Inr ds'"
    and l: "length ds' = length ?ds"
    and v: "\<forall>j<length ?ds. ds' ! j = (if j \<in> set idxs
            then Static (max (arg_shape ! (j - s)) (target ! j)) else ?ds ! j)"
    by blast
  have "numpy_pdpd_loop arg_shape target s (i # idxs) ds = Inr ds'"
    using Cons.prems r by auto
  moreover have "\<forall>j<length ds. ds' ! j = (if j \<in> set (i # idxs)
            then Static (max (arg_shape ! (j - s)) (target ! j)) else ds ! j)"
    using v by (auto simp: nth_list_update)
  ultimately show ?case using l by simp
qed

lemma int_diff_of_le: "arg_rank \<le> target_rank \<Longrightarrow> int target_rank - int arg_rank = int (target_rank - arg_rank)"
  by (simp only: of_nat_diff)

lemma diff_less_two_64: "(n::nat) < 2 ^ 64 \<Longrightarrow> n - k < 2 ^ 64"
  by (rule le_less_trans [OF diff_le_self])

lemma int_less_two_64: "(n::nat) < 2 ^ 64 \<Longrightarrow> int n < 2 ^ 64"
proof -
  assume "n < 2 ^ 64"
  then have "int n < int (2 ^ 64)" by (simp only: of_nat_less_iff)
  also have "int (2 ^ 64) = 2 ^ 64" by (simp only: of_nat_power of_nat_numeral)
  finally show ?thesis .
qed

lemma int_mod_two_64: "(n::nat) < 2 ^ 64 \<Longrightarrow> int n mod 2 ^ 64 = int n"
  by (rule mod_pos_pos_trivial) (simp_all only: of_nat_0_le_iff int_less_two_64)

lemma int64_mod_two_64: "0 \<le> (a::int) \<Longrightarrow> a < 2 ^ 63 \<Longrightarrow> a mod 2 ^ 64 = a"
proof -
  assume a: "0 \<le> a" "a < 2 ^ 63"
  have "(2::int) ^ 63 \<le> 2 ^ 64" by (rule power_increasing) simp_all
  with a(2) have "a < 2 ^ 64" by (rule less_le_trans)
  with a(1) show ?thesis by (rule mod_pos_pos_trivial)
qed


lemma start_axis_numpy:
  assumes "m_type mode \<noteq> PDPD" "arg_rank \<le> target_rank" "target_rank < 2 ^ 64"
  shows "start_axis mode target_rank arg_rank = target_rank - arg_rank"
proof -
  have "(int target_rank - int arg_rank) mod 2 ^ 64 = int (target_rank - arg_rank)"
    unfolding int_diff_of_le [OF assms(2)] by (rule int_mod_two_64) (rule diff_less_two_64 [OF assms(3)])
  then have "nat ((int target_rank - int arg_rank) mod 2 ^ 64) = target_rank - arg_rank"
    by (simp only: nat_int)
  then show ?thesis unfolding start_axis_def using assms(1) by (simp only: if_False)
qed

lemma start_axis_pdpd:
  assumes "m_type mode = PDPD" "0 \<le> m_axis mode" "m_axis mode < 2 ^ 63"
  shows "start_axis mode target_rank arg_rank = nat (m_axis mode)"
  unfolding start_axis_def using assms(1) int64_mod_two_64 [OF assms(2,3)] by (simp only: refl if_True)

lemma target_result_shape_constant:
  "target_shape_node node = Constant target \<Longrightarrow> target_result_shape node = Inr (to_partial target)"
  by (simp add: target_result_shape_def)

lemma validate_numpy_pdpd_constant:
  assumes "m_type (m_mode node) = NUMPY \<or> m_type (m_mode node) = PDPD"
      and "partial_shape (arg node) = to_partial arg_shape"
      and "is_static (partial_shape (target_shape node))"
      and "target_shape_node node = Constant target"
      and "check_shape_inputs node = Inr ()"
  shows "validate_and_infer_types node =
     (case numpy_pdpd_loop arg_shape target
             (start_axis (m_mode node) (length target) (length arg_shape))
             [start_axis (m_mode node) (length target) (length arg_shape)..<length target]
             (map Static target) of
        Inl e \<Rightarrow> Inl e
      | Inr ds' \<Rightarrow> Inr (set_output_type (element_type (arg node)) (Ranked ds') node))"
proof -
  have v: "validate_numpy_pdpd node (to_partial target) =
     (case numpy_pdpd_loop arg_shape target
             (start_axis (m_mode node) (length target) (length arg_shape))
             [start_axis (m_mode node) (length target) (length arg_shape)..<length target]
             (map Static target) of
        Inl e \<Rightarrow> Inl e
      | Inr ds' \<Rightarrow> Inr (Ranked ds'))"
    using assms(2,3,4) by (simp add: validate_numpy_pdpd_def Let_def to_partial_def)
  have m: "m_type (m_mode node) \<noteq> NONE" using assms(1) by auto
  show ?thesis
    unfolding validate_and_infer_types_def
    using assms(1,5) m target_result_shape_constant [OF assms(4)] v
    by (auto split: sum.splits)
qed

text \<open>
  C10. In every mode, and whether the target shape resolves to a literal or the output
  shape stays dynamic: whenever shape inference of a Broadcast succeeds, the element
  type of its output is the element type of the argument.
\<close>

theorem broadcast_output_element_type:
  "validate_and_infer_types node = Inr node' \<Longrightarrow>
   element_type (bc_output node') = element_type (arg node)"
  by (auto simp: validate_and_infer_types_def set_output_type_def split: sum.splits if_splits)

text \<open>
  C4. A Broadcast in mode NUMPY or PDPD with a static argument shape, a literal
  constant target shape and a valid start axis \<open>s\<close> (target rank minus argument rank
  in mode NUMPY, the configured non-negative axis in mode PDPD). A position \<open>i\<close> of the
  target is aligned with the argument dimension \<open>i - s\<close> when \<open>s \<le> i\<close> and the argument
  has that dimension. If at some aligned position the two dimensions are neither
  equal nor one of them 1, validation fails. If inference succeeds, the output has
  the rank of the target, its dimension at every position from \<open>s\<close> on is the larger
  of the two, and the leading target dimensions before \<open>s\<close> are unchanged. Inference
  does succeed, with exactly that shape, when the checks on the target-shape input
  pass, every position from \<open>s\<close> on is aligned and every aligned pair is compatible.
\<close>

theorem broadcast_numpy_pdpd_dimensions:
  assumes mode: "m_type (m_mode node) = NUMPY \<or> m_type (m_mode node) = PDPD"
    and arg: "partial_shape (arg node) = to_partial arg_shape"
    and ts: "is_static (partial_shape (target_shape node))"
    and tgt: "target_shape_node node = Constant target"
    and len: "length target < 2 ^ 64"
    and numpy: "m_type (m_mode node) = NUMPY \<longrightarrow> length arg_shape \<le> length target"
    and pdpd: "m_type (m_mode node) = PDPD \<longrightarrow>
                 0 \<le> m_axis (m_mode node) \<and> m_axis (m_mode node) < 2 ^ 63"
    and s: "s = (if m_type (m_mode node) = PDPD then nat (m_axis (m_mode node))
                 else length target - length arg_shape)"
  shows "((\<exists>i. s \<le> i \<and> i < length target \<and> i - s < length arg_shape
              \<and> \<not> (arg_shape ! (i - s) = 1 \<or> target ! i = 1 \<or> arg_shape ! (i - s) = target ! i))
            \<longrightarrow> (\<exists>msg. validate_and_infer_types node = Inl (NodeValidationFailure msg)))
       \<and> (\<forall>node'. validate_and_infer_types node = Inr node' \<longrightarrow>
            (\<exists>ds. partial_shape (bc_output node') = Ranked ds \<and> length ds = length target
               \<and> (\<forall>i<length target. ds ! i =
                     (if i < s then Static (target ! i)
                      else Static (max (arg_shape ! (i - s)) (target ! i))))))
       \<and> (check_shape_inputs node = Inr () \<and> length target \<le> s + length arg_shape
            \<and> (\<forall>i. s \<le> i \<and> i < length target \<longrightarrow>
                   arg_shape ! (i - s) = 1 \<or> target ! i = 1 \<or> arg_shape ! (i - s) = target ! i)
            \<longrightarrow> validate_and_infer_types node =
                  Inr (set_output_type (element_type (arg node))
                     (Ranked (map (\<lambda>i. if i < s then Static (target ! i)
                                       else Static (max (arg_shape ! (i - s)) (target ! i)))
                                [0..<length target])) node))"
proof (cases "check_shape_inputs node")
  case (Inl e)
  with check_shape_inputs_cases [of node] obtain msg where "e = NodeValidationFailure msg" by auto
  with Inl have "validate_and_infer_types node = Inl (NodeValidationFailure msg)"
    by (simp add: validate_and_infer_types_def)
  then show ?thesis using Inl by simp
next
  case (Inr u)
  have sa: "start_axis (m_mode node) (length target) (length arg_shape) = s"
  proof (cases "m_type (m_mode node) = PDPD")
    case True
    then show ?thesis using pdpd s by (simp add: start_axis_pdpd)
  next
    case False
    with mode numpy have "length arg_shape \<le> length target" by simp
    then show ?thesis using False len s by (simp add: start_axis_numpy)
  qed
  have v: "validate_and_infer_types node =
     (case numpy_pdpd_loop arg_shape target s [s..<length target] (map Static target) of
        Inl e \<Rightarrow> Inl e
      | Inr ds' \<Rightarrow> Inr (set_output_type (element_type (arg node)) (Ranked ds') node))"
    using validate_numpy_pdpd_constant [OF mode arg ts tgt] Inr sa by simp
  show ?thesis
  proof (intro conjI impI allI)
    assume "\<exists>i. s \<le> i \<and> i < length target \<and> i - s < length arg_shape
              \<and> \<not> (arg_shape ! (i - s) = 1 \<or> target ! i = 1 \<or> arg_shape ! (i - s) = target ! i)"
    then have bad: "\<exists>i\<in>set [s..<length target]. i - s < length arg_shape
              \<and> \<not> (arg_shape ! (i - s) = 1 \<or> target ! i = 1 \<or> arg_shape ! (i - s) = target ! i)"
      by auto
    have rng: "\<forall>j\<in>set [s..<length target]. s \<le> j \<and> j < length (map Static target)" by simp
    from numpy_pdpd_loop_aligned_fail [OF _ rng bad]
    obtain msg where "numpy_pdpd_loop arg_shape target s [s..<length target] (map Static target)
                        = Inl (NodeValidationFailure msg)" by auto
    then have "validate_and_infer_types node = Inl (NodeValidationFailure msg)"
      using v by simp
    then show "\<exists>msg. validate_and_infer_types node = Inl (NodeValidationFailure msg)" by blast
  next
    fix node'
    assume ok: "validate_and_infer_types node = Inr node'"
    then obtain ds' where
      r: "numpy_pdpd_loop arg_shape target s [s..<length target] (map Static target) = Inr ds'"
      and n: "node' = set_output_type (element_type (arg node)) (Ranked ds') node"
      using v by (auto split: sum.splits)
    from numpy_pdpd_loop_success [OF r]
    have l: "length ds' = length target"
      and d: "\<forall>j<length target. ds' ! j = (if j \<in> set [s..<length target]
            then Static (max (arg_shape ! (j - s)) (target ! j)) else map Static target ! j)"
      by simp_all
    have d': "\<forall>i<length target. ds' ! i =
                     (if i < s then Static (target ! i)
                      else Static (max (arg_shape ! (i - s)) (target ! i)))"
      using d by auto
    show "\<exists>ds. partial_shape (bc_output node') = Ranked ds \<and> length ds = length target
               \<and> (\<forall>i<length target. ds ! i =
                     (if i < s then Static (target ! i)
                      else Static (max (arg_shape ! (i - s)) (target ! i))))"
      using n l d' by (auto simp: set_output_type_def)
  next
    assume a: "check_shape_inputs node = Inr () \<and> length target \<le> s + length arg_shape
            \<and> (\<forall>i. s \<le> i \<and> i < length target \<longrightarrow>
                   arg_shape ! (i - s) = 1 \<or> target ! i = 1 \<or> arg_shape ! (i - s) = target ! i)"
    have rng: "\<forall>i\<in>set [s..<length target]. i - s < length arg_shape
                 \<and> i < length (map Static target)"
      using a by auto
    have ok: "\<forall>i\<in>set [s..<length target].
                arg_shape ! (i - s) = 1 \<or> target ! i = 1 \<or> arg_shape ! (i - s) = target ! i"
      using a by auto
    from numpy_pdpd_loop_ok [OF rng ok]
    obtain ds' where
      r: "numpy_pdpd_loop arg_shape target s [s..<length target] (map Static target) = Inr ds'"
      and l: "length ds' = length target"
      and d: "\<forall>j<length target. ds' ! j = (if j \<in> set [s..<length target]
            then Static (max (arg_shape ! (j - s)) (target ! j)) else map Static target ! j)"
      by auto
    have "ds' = map (\<lambda>i. if i < s then Static (target ! i)
                           else Static (max (arg_shape ! (i - s)) (target ! i)))
                  [0..<length target]"
      using l d by (intro nth_equalityI) auto
    then show "validate_and_infer_types node =
                  Inr (set_output_type (element_type (arg node))
                     (Ranked (map (\<lambda>i. if i < s then Static (target ! i)
                                       else Static (max (arg_shape ! (i - s)) (target ! i)))
                                [0..<length target])) node)"
      using v r by simp
  qed
qed

text \<open>
  C1. The start axis is an unsigned \<^verbatim>\<open>size_t\<close>, so the check \<^verbatim>\<open>start_axis >= 0\<close> cannot
  fail. In mode NUMPY with argument shape \<open>{2,3}\<close> and target shape \<open>{3}\<close> the start axis
  wraps to \<open>2 ^ 64 - 1\<close>, the loop body never runs and inference succeeds with output
  shape \<open>{3}\<close>; in mode PDPD with the configured axis \<open>-1\<close> likewise.
\<close>

theorem broadcast_negative_start_axis_accepted:
  "validate_and_infer_types
    \<lparr>m_mode = \<lparr>m_type = NUMPY, m_axis = 0\<rparr>,
     arg = \<lparr>element_type = f32, partial_shape = Ranked [Static 2, Static 3]\<rparr>,
     target_shape = \<lparr>element_type = i64, partial_shape = Ranked [Static 1]\<rparr>,
     target_shape_node = Constant [3],
     axes_mapping = \<lparr>element_type = i64, partial_shape = Ranked [Static 0]\<rparr>,
     axes_mapping_constant = Some [],
     bc_output = \<lparr>element_type = boolean, partial_shape = RankDynamic\<rparr>\<rparr>
   = Inr
    \<lparr>m_mode = \<lparr>m_type = NUMPY, m_axis = 0\<rparr>,
     arg = \<lparr>element_type = f32, partial_shape = Ranked [Static 2, Static 3]\<rparr>,
     target_shape = \<lparr>element_type = i64, partial_shape = Ranked [Static 1]\<rparr>,
     target_shape_node = Constant [3],
     axes_mapping = \<lparr>element_type = i64, partial_shape = Ranked [Static 0]\<rparr>,
     axes_mapping_constant = Some [],
     bc_output = \<lparr>element_type = f32, partial_shape = Ranked [Static 3]\<rparr>\<rparr>
   \<and> validate_and_infer_types
    \<lparr>m_mode = \<lparr>m_type = PDPD, m_axis = - 1\<rparr>,
     arg = \<lparr>element_type = f32, partial_shape = Ranked [Static 2]\<rparr>,
     target_shape = \<lparr>element_type = i64, partial_shape = Ranked [Static 2]\<rparr>,
     target_shape_node = Constant [5, 3],
     axes_mapping = \<lparr>element_type = i64, partial_shape = Ranked [Static 0]\<rparr>,
     axes_mapping_constant = Some [],
     bc_output = \<lparr>element_type = boolean, partial_shape = RankDynamic\<rparr>\<rparr>
   = Inr
    \<lparr>m_mode = \<lparr>m_type = PDPD, m_axis = - 1\<rparr>,
     arg = \<lparr>element_type = f32, partial_shape = Ranked [Static 2]\<rparr>,
     target_shape = \<lparr>element_type = i64, partial_shape = Ranked [Static 2]\<rparr>,
     target_shape_node = Constant [5, 3],
     axes_mapping = \<lparr>element_type = i64, partial_shape = Ranked [Static 0]\<rparr>,
     axes_mapping_constant = Some [],
     bc_output = \<lparr>element_type = f32, partial_shape = Ranked [Static 5, Static 3]\<rparr>\<rparr>"
  by (simp add: validate_and_infer_types_def check_shape_inputs_def target_result_shape_def
        validate_numpy_pdpd_def validate_axes_mapping_def start_axis_def shape_size_def
        to_partial_def set_output_type_def Let_def upt_conv_Cons)

theorem broadcast_output_element_type_witness:
  "validate_and_infer_types
    \<lparr>m_mode = \<lparr>m_type = NUMPY, m_axis = 0\<rparr>,
     arg = \<lparr>element_type = i32, partial_shape = Ranked [Static 1, Static 3]\<rparr>,
     target_shape = \<lparr>element_type = i64, partial_shape = Ranked [Static 3]\<rparr>,
     target_shape_node = Constant [4, 1, 3],
     axes_mapping = \<lparr>element_type = i64, partial_shape = Ranked [Static 0]\<rparr>,
     axes_mapping_constant = Some [],
     bc_output = \<lparr>element_type = boolean, partial_shape = RankDynamic\<rparr>\<rparr>
   = Inr
    \<lparr>m_mode = \<lparr>m_type = NUMPY, m_axis = 0\<rparr>,
     arg = \<lparr>element_type = i32, partial_shape = Ranked [Static 1, Static 3]\<rparr>,
     target_shape = \<lparr>element_type = i64, partial_shape = Ranked [Static 3]\<rparr>,
     target_shape_node = Constant [4, 1, 3],
     axes_mapping = \<lparr>element_type = i64, partial_shape = Ranked [Static 0]\<rparr>,
     axes_mapping_constant = Some [],
     bc_output = \<lparr>element_type = i32, partial_shape = Ranked [Static 4, Static 1, Static 3]\<rparr>\<rparr>
   \<and> element_type (bc_output
    \<lparr>m_mode = \<lparr>m_type = NUMPY, m_axis = 0\<rparr>,
     arg = \<lparr>element_type = i32, partial_shape = Ranked [Static 1, Static 3]\<rparr>,
     target_shape = \<lparr>element_type = i64, partial_shape = Ranked [Static 3]\<rparr>,
     target_shape_node = Constant [4, 1, 3],
     axes_mapping = \<lparr>element_type = i64, partial_shape = Ranked [Static 0]\<rparr>,
     axes_mapping_constant = Some [],
     bc_output = \<lparr>element_type = i32, partial_shape = Ranked [Static 4, Static 1, Static 3]\<rparr>\<rparr>) = i32
   \<and> validate_and_infer_types
    \<lparr>m_mode = \<lparr>m_type = PDPD, m_axis = 1\<rparr>,
     arg = \<lparr>element_type = u8, partial_shape = Ranked [Static 2, Static 3]\<rparr>,
     target_shape = \<lparr>element_type = i64, partial_shape = Ranked [Static 3]\<rparr>,
     target_shape_node = OtherProducer,
     axes_mapping = \<lparr>element_type = i64, partial_shape = Ranked [Static 0]\<rparr>,
     axes_mapping_constant = Some [],
     bc_output = \<lparr>element_type = boolean, partial_shape = RankDynamic\<rparr>\<rparr>
   = Inr
    \<lparr>m_mode = \<lparr>m_type = PDPD, m_axis = 1\<rparr>,
     arg = \<lparr>element_type = u8, partial_shape = Ranked [Static 2, Static 3]\<rparr>,
     target_shape = \<lparr>element_type = i64, partial_shape = Ranked [Static 3]\<rparr>,
     target_shape_node = OtherProducer,
     axes_mapping = \<lparr>element_type = i64, partial_shape = Ranked [Static 0]\<rparr>,
     axes_mapping_constant = Some [],
     bc_output = \<lparr>element_type = u8, partial_shape = RankDynamic\<rparr>\<rparr>
   \<and> element_type (bc_output
    \<lparr>m_mode = \<lparr>m_type = PDPD, m_axis = 1\<rparr>,
     arg = \<lparr>element_type = u8, partial_shape = Ranked [Static 2, Static 3]\<rparr>,
     target_shape = \<lparr>element_type = i64, partial_shape = Ranked [Static 3]\<rparr>,
     target_shape_node = OtherProducer,
     axes_mapping = \<lparr>element_type = i64, partial_shape = Ranked [Static 0]\<rparr>,
     axes_mapping_constant = Some [],
     bc_output = \<lparr>element_type = u8, partial_shape = RankDynamic\<rparr>\<rparr>) = u8"
proof -
  have a: "validate_and_infer_types
    \<lparr>m_mode = \<lparr>m_type = NUMPY, m_axis = 0\<rparr>,
     arg = \<lparr>element_type = i32, partial_shape = Ranked [Static 1, Static 3]\<rparr>,
     target_shape = \<lparr>element_type = i64, partial_shape = Ranked [Static 3]\<rparr>,
     target_shape_node = Constant [4, 1, 3],
     axes_mapping = \<lparr>element_type = i64, partial_shape = Ranked [Static 0]\<rparr>,
     axes_mapping_constant = Some [],
     bc_output = \<lparr>element_type = boolean, partial_shape = RankDynamic\<rparr>\<rparr>
   = Inr
    \<lparr>m_mode = \<lparr>m_type = NUMPY, m_axis = 0\<rparr>,
     arg = \<lparr>element_type = i32, partial_shape = Ranked [Static 1, Static 3]\<rparr>,
     target_shape = \<lparr>element_type = i64, partial_shape = Ranked [Static 3]\<rparr>,
     target_shape_node = Constant [4, 1, 3],
     axes_mapping = \<lparr>element_type = i64, partial_shape = Ranked [Static 0]\<rparr>,
     axes_mapping_constant = Some [],
     bc_output = \<lparr>element_type = i32, partial_shape = Ranked [Static 4, Static 1, Static 3]\<rparr>\<rparr>"
    by (simp add: validate_and_infer_types_def check_shape_inputs_def target_result_shape_def
        validate_numpy_pdpd_def validate_axes_mapping_def start_axis_def shape_size_def
        to_partial_def set_output_type_def Let_def upt_conv_Cons)
  have b: "validate_and_infer_types
    \<lparr>m_mode = \<lparr>m_type = PDPD, m_axis = 1\<rparr>,
     arg = \<lparr>element_type = u8, partial_shape = Ranked [Static 2, Static 3]\<rparr>,
     target_shape = \<lparr>element_type = i64, partial_shape = Ranked [Static 3]\<rparr>,
     target_shape_node = OtherProducer,
     axes_mapping = \<lparr>element_type = i64, partial_shape = Ranked [Static 0]\<rparr>,
     axes_mapping_constant = Some [],
     bc_output = \<lparr>element_type = boolean, partial_shape = RankDynamic\<rparr>\<rparr>
   = Inr
    \<lparr>m_mode = \<lparr>m_type = PDPD, m_axis = 1\<rparr>,
     arg = \<lparr>element_type = u8, partial_shape = Ranked [Static 2, Static 3]\<rparr>,
     target_shape = \<lparr>element_type = i64, partial_shape = Ranked [Static 3]\<rparr>,
     target_shape_node = OtherProducer,
     axes_mapping = \<lparr>element_type = i64, partial_shape = Ranked [Static 0]\<rparr>,
     axes_mapping_constant = Some [],
     bc_output = \<lparr>element_type = u8, partial_shape = RankDynamic\<rparr>\<rparr>"
    by (simp add: validate_and_infer_types_def check_shape_inputs_def target_result_shape_def
        validate_numpy_pdpd_def validate_axes_mapping_def start_axis_def shape_size_def
        to_partial_def set_output_type_def Let_def upt_conv_Cons)
  show ?thesis
    using a b broadcast_output_element_type [OF a] broadcast_output_element_type [OF b]
    by simp
qed

theorem broadcast_numpy_pdpd_dimensions_witness:
  "(\<exists>msg. validate_and_infer_types
    \<lparr>m_mode = \<lparr>m_type = NUMPY, m_axis = 0\<rparr>,
       arg = \<lparr>element_type = f32, partial_shape = Ranked [Static 2]\<rparr>,
       target_shape = \<lparr>element_type = i64, partial_shape = Ranked [Static 2]\<rparr>,
       target_shape_node = Constant [5, 3],
       axes_mapping = \<lparr>element_type = i64, partial_shape = Ranked [Static 0]\<rparr>,
       axes_mapping_constant = Some [],
       bc_output = \<lparr>element_type = boolean, partial_shape = RankDynamic\<rparr>\<rparr>
     = Inl (NodeValidationFailure msg))
   \<and> (\<exists>msg. validate_and_infer_types
    \<lparr>m_mode = \<lparr>m_type = PDPD, m_axis = 1\<rparr>,
       arg = \<lparr>element_type = f32, partial_shape = Ranked [Static 2]\<rparr>,
       target_shape = \<lparr>element_type = i64, partial_shape = Ranked [Static 3]\<rparr>,
       target_shape_node = Constant [5, 3, 4],
       axes_mapping = \<lparr>element_type = i64, partial_shape = Ranked [Static 0]\<rparr>,
       axes_mapping_constant = Some [],
       bc_output = \<lparr>element_type = boolean, partial_shape = RankDynamic\<rparr>\<rparr>
     = Inl (NodeValidationFailure msg))
   \<and> validate_and_infer_types
    \<lparr>m_mode = \<lparr>m_type = NUMPY, m_axis = 0\<rparr>,
     arg = \<lparr>element_type = f32, partial_shape = Ranked [Static 1, Static 3]\<rparr>,
     target_shape = \<lparr>element_type = i64, partial_shape = Ranked [Static 3]\<rparr>,
     target_shape_node = Constant [4, 1, 3],
     axes_mapping = \<lparr>element_type = i64, partial_shape = Ranked [Static 0]\<rparr>,
     axes_mapping_constant = Some [],
     bc_output = \<lparr>element_type = boolean, partial_shape = RankDynamic\<rparr>\<rparr>
   = Inr
    \<lparr>m_mode = \<lparr>m_type = NUMPY, m_axis = 0\<rparr>,
     arg = \<lparr>element_type = f32, partial_shape = Ranked [Static 1, Static 3]\<rparr>,
     target_shape = \<lparr>element_type = i64, partial_shape = Ranked [Static 3]\<rparr>,
     target_shape_node = Constant [4, 1, 3],
     axes_mapping = \<lparr>element_type = i64, partial_shape = Ranked [Static 0]\<rparr>,
     axes_mapping_constant = Some [],
     bc_output = \<lparr>element_type = f32, partial_shape = Ranked [Static 4, Static 1, Static 3]\<rparr>\<rparr>
   \<and> validate_and_infer_types
    \<lparr>m_mode = \<lparr>m_type = PDPD, m_axis = 1\<rparr>,
     arg = \<lparr>element_type = f32, partial_shape = Ranked [Static 3, Static 1]\<rparr>,
     target_shape = \<lparr>element_type = i64, partial_shape = Ranked [Static 3]\<rparr>,
     target_shape_node = Constant [5, 3, 4],
     axes_mapping = \<lparr>element_type = i64, partial_shape = Ranked [Static 0]\<rparr>,
     axes_mapping_constant = Some [],
     bc_output = \<lparr>element_type = boolean, partial_shape = RankDynamic\<rparr>\<rparr>
   = Inr
    \<lparr>m_mode = \<lparr>m_type = PDPD, m_axis = 1\<rparr>,
     arg = \<lparr>element_type = f32, partial_shape = Ranked [Static 3, Static 1]\<rparr>,
     target_shape = \<lparr>element_type = i64, partial_shape = Ranked [Static 3]\<rparr>,
     target_shape_node = Constant [5, 3, 4],
     axes_mapping = \<lparr>element_type = i64, partial_shape = Ranked [Static 0]\<rparr>,
     axes_mapping_constant = Some [],
     bc_output = \<lparr>element_type = f32, partial_shape = Ranked [Static 5, Static 3, Static 4]\<rparr>\<rparr>
   \<and> validate_and_infer_types
    \<lparr>m_mode = \<lparr>m_type = NUMPY, m_axis = 0\<rparr>,
     arg = \<lparr>element_type = f32, partial_shape = Ranked [Static 3]\<rparr>,
     target_shape = \<lparr>element_type = i64, partial_shape = Ranked [Static 2]\<rparr>,
     target_shape_node = Constant [2, 1],
     axes_mapping = \<lparr>element_type = i64, partial_shape = Ranked [Static 0]\<rparr>,
     axes_mapping_constant = Some [],
     bc_output = \<lparr>element_type = boolean, partial_shape = RankDynamic\<rparr>\<rparr>
   = Inr
    \<lparr>m_mode = \<lparr>m_type = NUMPY, m_axis = 0\<rparr>,
     arg = \<lparr>element_type = f32, partial_shape = Ranked [Static 3]\<rparr>,
     target_shape = \<lparr>element_type = i64, partial_shape = Ranked [Static 2]\<rparr>,
     target_shape_node = Constant [2, 1],
     axes_mapping = \<lparr>element_type = i64, partial_shape = Ranked [Static 0]\<rparr>,
     axes_mapping_constant = Some [],
     bc_output = \<lparr>element_type = f32, partial_shape = Ranked [Static 2, Static 3]\<rparr>\<rparr>"
proof -
  have q: "\<forall>i. (1::nat) \<le> i \<and> i < length [2, 1::nat] \<longrightarrow>
             [3::nat] ! (i - 1) = 1 \<or> [2, 1::nat] ! i = 1 \<or> [3::nat] ! (i - 1) = [2, 1] ! i"
  proof (intro allI impI)
    fix i :: nat
    assume "1 \<le> i \<and> i < length [2, 1::nat]"
    then have "i = 1" by simp
    then show "[3::nat] ! (i - 1) = 1 \<or> [2, 1::nat] ! i = 1 \<or> [3::nat] ! (i - 1) = [2, 1] ! i"
      by simp
  qed
  have e: "validate_and_infer_types
    \<lparr>m_mode = \<lparr>m_type = NUMPY, m_axis = 0\<rparr>,
     arg = \<lparr>element_type = f32, partial_shape = Ranked [Static 3]\<rparr>,
     target_shape = \<lparr>element_type = i64, partial_shape = Ranked [Static 2]\<rparr>,
     target_shape_node = Constant [2, 1],
     axes_mapping = \<lparr>element_type = i64, partial_shape = Ranked [Static 0]\<rparr>,
     axes_mapping_constant = Some [],
     bc_output = \<lparr>element_type = boolean, partial_shape = RankDynamic\<rparr>\<rparr>
   = Inr (set_output_type (element_type (arg
    \<lparr>m_mode = \<lparr>m_type = NUMPY, m_axis = 0\<rparr>,
     arg = \<lparr>element_type = f32, partial_shape = Ranked [Static 3]\<rparr>,
     target_shape = \<lparr>element_type = i64, partial_shape = Ranked [Static 2]\<rparr>,
     target_shape_node = Constant [2, 1],
     axes_mapping = \<lparr>element_type = i64, partial_shape = Ranked [Static 0]\<rparr>,
     axes_mapping_constant = Some [],
     bc_output = \<lparr>element_type = boolean, partial_shape = RankDynamic\<rparr>\<rparr>))
     (Ranked (map (\<lambda>i. if i < 1 then Static ([2, 1] ! i)
                        else Static (max ([3] ! (i - 1)) ([2, 1] ! i))) [0..<length [2, 1::nat]]))
    \<lparr>m_mode = \<lparr>m_type = NUMPY, m_axis = 0\<rparr>,
     arg = \<lparr>element_type = f32, partial_shape = Ranked [Static 3]\<rparr>,
     target_shape = \<lparr>element_type = i64, partial_shape = Ranked [Static 2]\<rparr>,
     target_shape_node = Constant [2, 1],
     axes_mapping = \<lparr>element_type = i64, partial_shape = Ranked [Static 0]\<rparr>,
     axes_mapping_constant = Some [],
     bc_output = \<lparr>element_type = boolean, partial_shape = RankDynamic\<rparr>\<rparr>)"
    by (rule broadcast_numpy_pdpd_dimensions [where s = 1 and arg_shape = "[3]"
          and target = "[2, 1]", THEN conjunct2, THEN conjunct2, THEN mp])
       (simp_all add: to_partial_def check_shape_inputs_def q)
  have e': "validate_and_infer_types
    \<lparr>m_mode = \<lparr>m_type = NUMPY, m_axis = 0\<rparr>,
     arg = \<lparr>element_type = f32, partial_shape = Ranked [Static 3]\<rparr>,
     target_shape = \<lparr>element_type = i64, partial_shape = Ranked [Static 2]\<rparr>,
     target_shape_node = Constant [2, 1],
     axes_mapping = \<lparr>element_type = i64, partial_shape = Ranked [Static 0]\<rparr>,
     axes_mapping_constant = Some [],
     bc_output = \<lparr>element_type = boolean, partial_shape = RankDynamic\<rparr>\<rparr>
   = Inr
    \<lparr>m_mode = \<lparr>m_type = NUMPY, m_axis = 0\<rparr>,
     arg = \<lparr>element_type = f32, partial_shape = Ranked [Static 3]\<rparr>,
     target_shape = \<lparr>element_type = i64, partial_shape = Ranked [Static 2]\<rparr>,
     target_shape_node = Constant [2, 1],
     axes_mapping = \<lparr>element_type = i64, partial_shape = Ranked [Static 0]\<rparr>,
     axes_mapping_constant = Some [],
     bc_output = \<lparr>element_type = f32, partial_shape = Ranked [Static 2, Static 3]\<rparr>\<rparr>"
    using e by (simp add: set_output_type_def upt_conv_Cons)
  have f: "\<exists>i. (1::nat) \<le> i \<and> i < length [5, 3::nat] \<and> i - 1 < length [2::nat]
             \<and> \<not> ([2::nat] ! (i - 1) = 1 \<or> [5, 3::nat] ! i = 1 \<or> [2::nat] ! (i - 1) = [5, 3] ! i)"
    by (rule exI [of _ 1]) simp
  have a: "\<exists>msg. validate_and_infer_types
    \<lparr>m_mode = \<lparr>m_type = NUMPY, m_axis = 0\<rparr>,
       arg = \<lparr>element_type = f32, partial_shape = Ranked [Static 2]\<rparr>,
       target_shape = \<lparr>element_type = i64, partial_shape = Ranked [Static 2]\<rparr>,
       target_shape_node = Constant [5, 3],
       axes_mapping = \<lparr>element_type = i64, partial_shape = Ranked [Static 0]\<rparr>,
       axes_mapping_constant = Some [],
       bc_output = \<lparr>element_type = boolean, partial_shape = RankDynamic\<rparr>\<rparr>
     = Inl (NodeValidationFailure msg)"
    using f broadcast_numpy_pdpd_dimensions [where s = 1 and arg_shape = "[2]" and target = "[5, 3]"
      and node = "\<lparr>m_mode = \<lparr>m_type = NUMPY, m_axis = 0\<rparr>,
       arg = \<lparr>element_type = f32, partial_shape = Ranked [Static 2]\<rparr>,
       target_shape = \<lparr>element_type = i64, partial_shape = Ranked [Static 2]\<rparr>,
       target_shape_node = Constant [5, 3],
       axes_mapping = \<lparr>element_type = i64, partial_shape = Ranked [Static 0]\<rparr>,
       axes_mapping_constant = Some [],
       bc_output = \<lparr>element_type = boolean, partial_shape = RankDynamic\<rparr>\<rparr>"]
    by (simp add: to_partial_def)
  have g: "\<exists>i. (1::nat) \<le> i \<and> i < length [5, 3, 4::nat] \<and> i - 1 < length [2::nat]
             \<and> \<not> ([2::nat] ! (i - 1) = 1 \<or> [5, 3, 4::nat] ! i = 1 \<or> [2::nat] ! (i - 1) = [5, 3, 4] ! i)"
    by (rule exI [of _ 1]) simp
  have p: "\<exists>msg. validate_and_infer_types
    \<lparr>m_mode = \<lparr>m_type = PDPD, m_axis = 1\<rparr>,
       arg = \<lparr>element_type = f32, partial_shape = Ranked [Static 2]\<rparr>,
       target_shape = \<lparr>element_type = i64, partial_shape = Ranked [Static 3]\<rparr>,
       target_shape_node = Constant [5, 3, 4],
       axes_mapping = \<lparr>element_type = i64, partial_shape = Ranked [Static 0]\<rparr>,
       axes_mapping_constant = Some [],
       bc_output = \<lparr>element_type = boolean, partial_shape = RankDynamic\<rparr>\<rparr>
     = Inl (NodeValidationFailure msg)"
    using g broadcast_numpy_pdpd_dimensions [where s = 1 and arg_shape = "[2]" and target = "[5, 3, 4]"
      and node = "\<lparr>m_mode = \<lparr>m_type = PDPD, m_axis = 1\<rparr>,
       arg = \<lparr>element_type = f32, partial_shape = Ranked [Static 2]\<rparr>,
       target_shape = \<lparr>element_type = i64, partial_shape = Ranked [Static 3]\<rparr>,
       target_shape_node = Constant [5, 3, 4],
       axes_mapping = \<lparr>element_type = i64, partial_shape = Ranked [Static 0]\<rparr>,
       axes_mapping_constant = Some [],
       bc_output = \<lparr>element_type = boolean, partial_shape = RankDynamic\<rparr>\<rparr>"]
    by (simp add: to_partial_def)
  have b: "validate_and_infer_types
    \<lparr>m_mode = \<lparr>m_type = NUMPY, m_axis = 0\<rparr>,
     arg = \<lparr>element_type = f32, partial_shape = Ranked [Static 1, Static 3]\<rparr>,
     target_shape = \<lparr>element_type = i64, partial_shape = Ranked [Static 3]\<rparr>,
     target_shape_node = Constant [4, 1, 3],
     axes_mapping = \<lparr>element_type = i64, partial_shape = Ranked [Static 0]\<rparr>,
     axes_mapping_constant = Some [],
     bc_output = \<lparr>element_type = boolean, partial_shape = RankDynamic\<rparr>\<rparr>
   = Inr
    \<lparr>m_mode = \<lparr>m_type = NUMPY, m_axis = 0\<rparr>,
     arg = \<lparr>element_type = f32, partial_shape = Ranked [Static 1, Static 3]\<rparr>,
     target_shape = \<lparr>element_type = i64, partial_shape = Ranked [Static 3]\<rparr>,
     target_shape_node = Constant [4, 1, 3],
     axes_mapping = \<lparr>element_type = i64, partial_shape = Ranked [Static 0]\<rparr>,
     axes_mapping_constant = Some [],
     bc_output = \<lparr>element_type = f32, partial_shape = Ranked [Static 4, Static 1, Static 3]\<rparr>\<rparr>"
    by (simp add: validate_and_infer_types_def check_shape_inputs_def target_result_shape_def
        validate_numpy_pdpd_def validate_axes_mapping_def start_axis_def shape_size_def
        to_partial_def set_output_type_def Let_def upt_conv_Cons)
  have c: "validate_and_infer_types
    \<lparr>m_mode = \<lparr>m_type = PDPD, m_axis = 1\<rparr>,
     arg = \<lparr>element_type = f32, partial_shape = Ranked [Static 3, Static 1]\<rparr>,
     target_shape = \<lparr>element_type = i64, partial_shape = Ranked [Static 3]\<rparr>,
     target_shape_node = Constant [5, 3, 4],
     axes_mapping = \<lparr>element_type = i64, partial_shape = Ranked [Static 0]\<rparr>,
     axes_mapping_constant = Some [],
     bc_output = \<lparr>element_type = boolean, partial_shape = RankDynamic\<rparr>\<rparr>
   = Inr
    \<lparr>m_mode = \<lparr>m_type = PDPD, m_axis = 1\<rparr>,
     arg = \<lparr>element_type = f32, partial_shape = Ranked [Static 3, Static 1]\<rparr>,
     target_shape = \<lparr>element_type = i64, partial_shape = Ranked [Static 3]\<rparr>,
     target_shape_node = Constant [5, 3, 4],
     axes_mapping = \<lparr>element_type = i64, partial_shape = Ranked [Static 0]\<rparr>,
     axes_mapping_constant = Some [],
     bc_output = \<lparr>element_type = f32, partial_shape = Ranked [Static 5, Static 3, Static 4]\<rparr>\<rparr>"
    by (simp add: validate_and_infer_types_def check_shape_inputs_def target_result_shape_def
        validate_numpy_pdpd_def validate_axes_mapping_def start_axis_def shape_size_def
        to_partial_def set_output_type_def Let_def upt_conv_Cons)
  have "\<exists>ds. Ranked [Static 4, Static 1, Static 3] = Ranked ds \<and> length ds = length [4, 1, 3::nat]
          \<and> (\<forall>i<length [4, 1, 3::nat]. ds ! i =
                (if i < 1 then Static ([4, 1, 3] ! i)
                 else Static (max ([1, 3] ! (i - 1)) ([4, 1, 3] ! i))))"
    using b broadcast_numpy_pdpd_dimensions [where s = 1 and arg_shape = "[1, 3]"
      and target = "[4, 1, 3]"
      and node = "\<lparr>m_mode = \<lparr>m_type = NUMPY, m_axis = 0\<rparr>,
     arg = \<lparr>element_type = f32, partial_shape = Ranked [Static 1, Static 3]\<rparr>,
     target_shape = \<lparr>element_type = i64, partial_shape = Ranked [Static 3]\<rparr>,
     target_shape_node = Constant [4, 1, 3],
     axes_mapping = \<lparr>element_type = i64, partial_shape = Ranked [Static 0]\<rparr>,
     axes_mapping_constant = Some [],
     bc_output = \<lparr>element_type = boolean, partial_shape = RankDynamic\<rparr>\<rparr>"]
    by (simp add: to_partial_def)
  moreover have "\<exists>ds. Ranked [Static 5, Static 3, Static 4] = Ranked ds \<and> length ds = length [5, 3, 4::nat]
          \<and> (\<forall>i<length [5, 3, 4::nat]. ds ! i =
                (if i < 1 then Static ([5, 3, 4] ! i)
                 else Static (max ([3, 1] ! (i - 1)) ([5, 3, 4] ! i))))"
    using c broadcast_numpy_pdpd_dimensions [where s = 1 and arg_shape = "[3, 1]"
      and target = "[5, 3, 4]"
      and node = "\<lparr>m_mode = \<lparr>m_type = PDPD, m_axis = 1\<rparr>,
     arg = \<lparr>element_type = f32, partial_shape = Ranked [Static 3, Static 1]\<rparr>,
     target_shape = \<lparr>element_type = i64, partial_shape = Ranked [Static 3]\<rparr>,
     target_shape_node = Constant [5, 3, 4],
     axes_mapping = \<lparr>element_type = i64, partial_shape = Ranked [Static 0]\<rparr>,
     axes_mapping_constant = Some [],
     bc_output = \<lparr>element_type = boolean, partial_shape = RankDynamic\<rparr>\<rparr>"]
    by (simp add: to_partial_def)
  ultimately show ?thesis using a p b c e' by blast
qed






lemma broadcast_axes_loop_result:
  "\<forall>i\<in>set idxs. s \<le> i \<longrightarrow> i - s < length arg_shape \<Longrightarrow>
   broadcast_axes_loop arg_shape result_shape s idxs acc
     = Inr (acc \<union> {i \<in> set idxs. i < s \<or> result_shape ! i \<noteq> arg_shape ! (i - s)})"
proof (induction idxs arbitrary: acc)
  case Nil
  then show ?case by simp
next
  case (Cons i idxs)
  then have IH: "\<And>acc. broadcast_axes_loop arg_shape result_shape s idxs acc
     = Inr (acc \<union> {i \<in> set idxs. i < s \<or> result_shape ! i \<noteq> arg_shape ! (i - s)})"
    by simp
  show ?case
  proof (cases "i < s")
    case True
    then show ?thesis by (simp add: IH) blast
  next
    case False
    with Cons.prems have r: "\<not> length arg_shape \<le> i - s" by auto
    show ?thesis
    proof (cases "result_shape ! i \<noteq> arg_shape ! (i - s)")
      case True
      with False r show ?thesis by (simp add: IH) blast
    next
      case eq: False
      with False r show ?thesis by (simp add: IH) blast
    qed
  qed
qed

lemma start_axis_numpy_wrapped:
  assumes "m_type mode \<noteq> PDPD" "target_rank < arg_rank" "arg_rank \<le> 2 ^ 64"
  shows "target_rank \<le> start_axis mode target_rank arg_rank"
proof -
  let ?d = "int target_rank - int arg_rank"
  have a: "int arg_rank \<le> 2 ^ 64"
  proof -
    have "int arg_rank \<le> int (2 ^ 64)" using assms(3) by (simp only: of_nat_le_iff)
    also have "int (2 ^ 64) = 2 ^ 64" by (simp only: of_nat_power of_nat_numeral)
    finally show ?thesis .
  qed
  have lo: "0 \<le> ?d + 2 ^ 64" using a by linarith
  have hi: "?d + 2 ^ 64 < 2 ^ 64" using assms(2) by linarith
  have "?d mod 2 ^ 64 = (?d + 2 ^ 64) mod 2 ^ 64" by (simp only: mod_add_self2)
  also have "\<dots> = ?d + 2 ^ 64" using lo hi by (rule mod_pos_pos_trivial)
  finally have m: "?d mod 2 ^ 64 = ?d + 2 ^ 64" .
  have "int target_rank \<le> ?d + 2 ^ 64" using a by linarith
  then have "int target_rank \<le> ?d mod 2 ^ 64" by (simp only: m)
  then have "target_rank \<le> nat (?d mod 2 ^ 64)" by (simp only: nat_le_iff [symmetric] nat_int)
  then show ?thesis unfolding start_axis_def using assms(1) by (simp only: if_False)
qed


lemma numpy_reads_in_range:
  assumes "m_type mode \<noteq> PDPD" "result_rank < 2 ^ 64" "arg_rank < 2 ^ 64"
      and "i < result_rank" "start_axis mode result_rank arg_rank \<le> i"
  shows "i - start_axis mode result_rank arg_rank < arg_rank"
proof (cases "arg_rank \<le> result_rank")
  case True
  from start_axis_numpy [OF assms(1) True assms(2)]
  have "start_axis mode result_rank arg_rank = result_rank - arg_rank" .
  then show ?thesis using True assms(4,5) by arith
next
  case False
  then have lt: "result_rank < arg_rank" by simp
  have "arg_rank \<le> 2 ^ 64" using assms(3) by (rule less_imp_le)
  from start_axis_numpy_wrapped [OF assms(1) lt this] assms(4,5)
  show ?thesis by arith
qed

text \<open>
  What \<^verbatim>\<open>get_broadcast_axes\<close> does in modes NUMPY and PDPD where its reads are defined.
  It never fails when a required shape is not static: it returns \<open>known = false\<close>.
  When the argument shape and the output shape are both static it returns
  \<open>known = true\<close> and exactly the output axes \<open>i\<close> that lie before the start axis the
  code computes or whose output dimension differs from argument dimension
  \<open>i - start_axis\<close>, provided that in mode PDPD every output position from the start
  axis on has such an argument dimension.
\<close>

lemma get_broadcast_axes_numpy_pdpd:
  assumes mode: "m_type (m_mode node) = NUMPY \<or> m_type (m_mode node) = PDPD"
  shows "(\<not> (is_static (partial_shape (arg node)) \<and> is_static (partial_shape (bc_output node)))
            \<longrightarrow> get_broadcast_axes node = Inr (False, {}))
       \<and> (\<forall>arg_shape result_shape s.
             partial_shape (arg node) = to_partial arg_shape
             \<and> partial_shape (bc_output node) = to_partial result_shape
             \<and> s = start_axis (m_mode node) (length result_shape) (length arg_shape)
             \<and> (m_type (m_mode node) = NUMPY \<longrightarrow>
                   length result_shape < 2 ^ 64 \<and> length arg_shape < 2 ^ 64)
             \<and> (m_type (m_mode node) = PDPD \<longrightarrow>
                   (\<forall>i<length result_shape. s \<le> i \<longrightarrow> i - s < length arg_shape))
             \<longrightarrow> get_broadcast_axes node
                   = Inr (True, {i. i < length result_shape
                                   \<and> (i < s \<or> result_shape ! i \<noteq> arg_shape ! (i - s))}))"
proof (intro conjI allI impI)
  assume "\<not> (is_static (partial_shape (arg node)) \<and> is_static (partial_shape (bc_output node)))"
  then show "get_broadcast_axes node = Inr (False, {})"
    using mode by (auto simp: get_broadcast_axes_def)
next
  fix arg_shape result_shape s
  assume a: "partial_shape (arg node) = to_partial arg_shape
             \<and> partial_shape (bc_output node) = to_partial result_shape
             \<and> s = start_axis (m_mode node) (length result_shape) (length arg_shape)
             \<and> (m_type (m_mode node) = NUMPY \<longrightarrow>
                   length result_shape < 2 ^ 64 \<and> length arg_shape < 2 ^ 64)
             \<and> (m_type (m_mode node) = PDPD \<longrightarrow>
                   (\<forall>i<length result_shape. s \<le> i \<longrightarrow> i - s < length arg_shape))"
  have rng: "\<forall>i\<in>set [0..<length result_shape]. s \<le> i \<longrightarrow> i - s < length arg_shape"
  proof (cases "m_type (m_mode node) = PDPD")
    case True
    with a show ?thesis by auto
  next
    case False
    with mode a have b: "length result_shape < 2 ^ 64" "length arg_shape < 2 ^ 64" by auto
    show ?thesis using numpy_reads_in_range [OF False b] a by auto
  qed
  have l: "broadcast_axes_loop arg_shape result_shape s [0..<length result_shape] {}
           = Inr {i. i < length result_shape \<and> (i < s \<or> result_shape ! i \<noteq> arg_shape ! (i - s))}"
    unfolding broadcast_axes_loop_result [OF rng] by auto
  show "get_broadcast_axes node
          = Inr (True, {i. i < length result_shape
                          \<and> (i < s \<or> result_shape ! i \<noteq> arg_shape ! (i - s))})"
    using mode a l by (auto simp: get_broadcast_axes_def Let_def)
qed

lemma get_broadcast_axes_numpy_pdpd_examples:
  "get_broadcast_axes
    \<lparr>m_mode = \<lparr>m_type = NUMPY, m_axis = 0\<rparr>,
     arg = \<lparr>element_type = f32, partial_shape = Ranked [Static 1, Static 3]\<rparr>,
     target_shape = \<lparr>element_type = i64, partial_shape = Ranked [Static 3]\<rparr>,
     target_shape_node = Constant [4, 1, 3],
     axes_mapping = \<lparr>element_type = i64, partial_shape = Ranked [Static 0]\<rparr>,
     axes_mapping_constant = Some [],
     bc_output = \<lparr>element_type = f32, partial_shape = Ranked [Static 4, Static 1, Static 3]\<rparr>\<rparr>
   = Inr (True, {0})
   \<and> get_broadcast_axes
    \<lparr>m_mode = \<lparr>m_type = NUMPY, m_axis = 0\<rparr>,
     arg = \<lparr>element_type = f32, partial_shape = Ranked [Static 1, Static 3]\<rparr>,
     target_shape = \<lparr>element_type = i64, partial_shape = Ranked [Static 3]\<rparr>,
     target_shape_node = OtherProducer,
     axes_mapping = \<lparr>element_type = i64, partial_shape = Ranked [Static 0]\<rparr>,
     axes_mapping_constant = Some [],
     bc_output = \<lparr>element_type = boolean, partial_shape = RankDynamic\<rparr>\<rparr>
   = Inr (False, {})
   \<and> get_broadcast_axes
    \<lparr>m_mode = \<lparr>m_type = PDPD, m_axis = 1\<rparr>,
     arg = \<lparr>element_type = f32, partial_shape = Ranked [Static 3, Static 1]\<rparr>,
     target_shape = \<lparr>element_type = i64, partial_shape = Ranked [Static 3]\<rparr>,
     target_shape_node = Constant [5, 3, 4],
     axes_mapping = \<lparr>element_type = i64, partial_shape = Ranked [Static 0]\<rparr>,
     axes_mapping_constant = Some [],
     bc_output = \<lparr>element_type = f32, partial_shape = Ranked [Static 5, Static 3, Static 4]\<rparr>\<rparr>
   = Inr (True, {0, 2})"
proof -
  have s1: "{i. i < length [4, 1, 3::nat] \<and> (i < 1 \<or> [4, 1, 3::nat] ! i \<noteq> [1, 3] ! (i - 1))} = {0}"
    by (auto simp: less_Suc_eq numeral_3_eq_3)
  have s3: "{i. i < length [5, 3, 4::nat] \<and> (i < 1 \<or> [5, 3, 4::nat] ! i \<noteq> [3, 1] ! (i - 1))} = {0, 2}"
    by (auto simp: less_Suc_eq numeral_3_eq_3)
  have a: "get_broadcast_axes
    \<lparr>m_mode = \<lparr>m_type = NUMPY, m_axis = 0\<rparr>,
     arg = \<lparr>element_type = f32, partial_shape = Ranked [Static 1, Static 3]\<rparr>,
     target_shape = \<lparr>element_type = i64, partial_shape = Ranked [Static 3]\<rparr>,
     target_shape_node = Constant [4, 1, 3],
     axes_mapping = \<lparr>element_type = i64, partial_shape = Ranked [Static 0]\<rparr>,
     axes_mapping_constant = Some [],
     bc_output = \<lparr>element_type = f32, partial_shape = Ranked [Static 4, Static 1, Static 3]\<rparr>\<rparr>
   = Inr (True, {i. i < length [4, 1, 3::nat] \<and> (i < 1 \<or> [4, 1, 3::nat] ! i \<noteq> [1, 3] ! (i - 1))})"
    by (rule get_broadcast_axes_numpy_pdpd [THEN conjunct2, rule_format])
       (auto simp: to_partial_def start_axis_def)
  have b: "get_broadcast_axes
    \<lparr>m_mode = \<lparr>m_type = NUMPY, m_axis = 0\<rparr>,
     arg = \<lparr>element_type = f32, partial_shape = Ranked [Static 1, Static 3]\<rparr>,
     target_shape = \<lparr>element_type = i64, partial_shape = Ranked [Static 3]\<rparr>,
     target_shape_node = OtherProducer,
     axes_mapping = \<lparr>element_type = i64, partial_shape = Ranked [Static 0]\<rparr>,
     axes_mapping_constant = Some [],
     bc_output = \<lparr>element_type = boolean, partial_shape = RankDynamic\<rparr>\<rparr>
   = Inr (False, {})"
    by (rule get_broadcast_axes_numpy_pdpd [THEN conjunct1, rule_format]) simp_all
  have c: "get_broadcast_axes
    \<lparr>m_mode = \<lparr>m_type = PDPD, m_axis = 1\<rparr>,
     arg = \<lparr>element_type = f32, partial_shape = Ranked [Static 3, Static 1]\<rparr>,
     target_shape = \<lparr>element_type = i64, partial_shape = Ranked [Static 3]\<rparr>,
     target_shape_node = Constant [5, 3, 4],
     axes_mapping = \<lparr>element_type = i64, partial_shape = Ranked [Static 0]\<rparr>,
     axes_mapping_constant = Some [],
     bc_output = \<lparr>element_type = f32, partial_shape = Ranked [Static 5, Static 3, Static 4]\<rparr>\<rparr>
   = Inr (True, {i. i < length [5, 3, 4::nat] \<and> (i < 1 \<or> [5, 3, 4::nat] ! i \<noteq> [3, 1] ! (i - 1))})"
    by (rule get_broadcast_axes_numpy_pdpd [THEN conjunct2, rule_format])
       (auto simp: to_partial_def start_axis_def)
  show ?thesis using a b c unfolding s1 s3 by simp
qed

text \<open>
  C6. The axis set is to hold the output axes before the start axis (target rank minus
  argument rank in mode NUMPY) and those whose output dimension differs from the
  aligned argument dimension. For the NUMPY node with argument \<open>{2,3}\<close> and target
  \<open>{3}\<close>, which inference accepts with output \<open>{3}\<close>, the start axis is \<open>-1\<close> and output
  axis 0 is aligned with the equal argument dimension 3; the code compares against
  the wrapped start axis \<open>2 ^ 64 - 1\<close> and returns the set \<open>{0}\<close>. In mode PDPD with axis
  1, argument \<open>{3}\<close> and output \<open>{5,3,4}\<close>, both static, the code reads \<^verbatim>\<open>arg_shape[1]\<close>
  past the end of the vector instead of returning \<open>known = true\<close>.
\<close>

theorem get_broadcast_axes_wrapped_start_axis:
  "validate_and_infer_types
    \<lparr>m_mode = \<lparr>m_type = NUMPY, m_axis = 0\<rparr>,
     arg = \<lparr>element_type = f32, partial_shape = Ranked [Static 2, Static 3]\<rparr>,
     target_shape = \<lparr>element_type = i64, partial_shape = Ranked [Static 1]\<rparr>,
     target_shape_node = Constant [3],
     axes_mapping = \<lparr>element_type = i64, partial_shape = Ranked [Static 0]\<rparr>,
     axes_mapping_constant = Some [],
     bc_output = \<lparr>element_type = boolean, partial_shape = RankDynamic\<rparr>\<rparr>
   = Inr
    \<lparr>m_mode = \<lparr>m_type = NUMPY, m_axis = 0\<rparr>,
     arg = \<lparr>element_type = f32, partial_shape = Ranked [Static 2, Static 3]\<rparr>,
     target_shape = \<lparr>element_type = i64, partial_shape = Ranked [Static 1]\<rparr>,
     target_shape_node = Constant [3],
     axes_mapping = \<lparr>element_type = i64, partial_shape = Ranked [Static 0]\<rparr>,
     axes_mapping_constant = Some [],
     bc_output = \<lparr>element_type = f32, partial_shape = Ranked [Static 3]\<rparr>\<rparr>
   \<and> get_broadcast_axes
    \<lparr>m_mode = \<lparr>m_type = NUMPY, m_axis = 0\<rparr>,
     arg = \<lparr>element_type = f32, partial_shape = Ranked [Static 2, Static 3]\<rparr>,
     target_shape = \<lparr>element_type = i64, partial_shape = Ranked [Static 1]\<rparr>,
     target_shape_node = Constant [3],
     axes_mapping = \<lparr>element_type = i64, partial_shape = Ranked [Static 0]\<rparr>,
     axes_mapping_constant = Some [],
     bc_output = \<lparr>element_type = f32, partial_shape = Ranked [Static 3]\<rparr>\<rparr>
   = Inr (True, {0})
   \<and> get_broadcast_axes
    \<lparr>m_mode = \<lparr>m_type = PDPD, m_axis = 1\<rparr>,
     arg = \<lparr>element_type = f32, partial_shape = Ranked [Static 3]\<rparr>,
     target_shape = \<lparr>element_type = i64, partial_shape = Ranked [Static 3]\<rparr>,
     target_shape_node = Constant [5, 3, 4],
     axes_mapping = \<lparr>element_type = i64, partial_shape = Ranked [Static 0]\<rparr>,
     axes_mapping_constant = Some [],
     bc_output = \<lparr>element_type = f32, partial_shape = Ranked [Static 5, Static 3, Static 4]\<rparr>\<rparr>
   = Inl undefined_behaviour"
proof (intro conjI)
  show "validate_and_infer_types
    \<lparr>m_mode = \<lparr>m_type = NUMPY, m_axis = 0\<rparr>,
     arg = \<lparr>element_type = f32, partial_shape = Ranked [Static 2, Static 3]\<rparr>,
     target_shape = \<lparr>element_type = i64, partial_shape = Ranked [Static 1]\<rparr>,
     target_shape_node = Constant [3],
     axes_mapping = \<lparr>element_type = i64, partial_shape = Ranked [Static 0]\<rparr>,
     axes_mapping_constant = Some [],
     bc_output = \<lparr>element_type = boolean, partial_shape = RankDynamic\<rparr>\<rparr>
   = Inr
    \<lparr>m_mode = \<lparr>m_type = NUMPY, m_axis = 0\<rparr>,
     arg = \<lparr>element_type = f32, partial_shape = Ranked [Static 2, Static 3]\<rparr>,
     target_shape = \<lparr>element_type = i64, partial_shape = Ranked [Static 1]\<rparr>,
     target_shape_node = Constant [3],
     axes_mapping = \<lparr>element_type = i64, partial_shape = Ranked [Static 0]\<rparr>,
     axes_mapping_constant = Some [],
     bc_output = \<lparr>element_type = f32, partial_shape = Ranked [Static 3]\<rparr>\<rparr>"
    by (simp add: validate_and_infer_types_def check_shape_inputs_def target_result_shape_def
        validate_numpy_pdpd_def validate_axes_mapping_def start_axis_def shape_size_def
        to_partial_def set_output_type_def Let_def upt_conv_Cons)
  show "get_broadcast_axes
    \<lparr>m_mode = \<lparr>m_type = NUMPY, m_axis = 0\<rparr>,
     arg = \<lparr>element_type = f32, partial_shape = Ranked [Static 2, Static 3]\<rparr>,
     target_shape = \<lparr>element_type = i64, partial_shape = Ranked [Static 1]\<rparr>,
     target_shape_node = Constant [3],
     axes_mapping = \<lparr>element_type = i64, partial_shape = Ranked [Static 0]\<rparr>,
     axes_mapping_constant = Some [],
     bc_output = \<lparr>element_type = f32, partial_shape = Ranked [Static 3]\<rparr>\<rparr>
   = Inr (True, {0})"
    by (simp add: get_broadcast_axes_def start_axis_def Let_def)
  show "get_broadcast_axes
    \<lparr>m_mode = \<lparr>m_type = PDPD, m_axis = 1\<rparr>,
     arg = \<lparr>element_type = f32, partial_shape = Ranked [Static 3]\<rparr>,
     target_shape = \<lparr>element_type = i64, partial_shape = Ranked [Static 3]\<rparr>,
     target_shape_node = Constant [5, 3, 4],
     axes_mapping = \<lparr>element_type = i64, partial_shape = Ranked [Static 0]\<rparr>,
     axes_mapping_constant = Some [],
     bc_output = \<lparr>element_type = f32, partial_shape = Ranked [Static 5, Static 3, Static 4]\<rparr>\<rparr>
   = Inl undefined_behaviour"
    by (simp add: get_broadcast_axes_def start_axis_def Let_def upt_conv_Cons)
qed

text \<open>
  The helper \<^verbatim>\<open>evaluate_broadcast\<close>, for any pair and output shape it is given: it
  returns false and leaves the output tensor as it was when the broadcast axis set is
  not known; it returns false when the element type of the input is outside the
  enumeration of the switch; otherwise it returns true, having set the shape of the
  output tensor to the given output shape and its data to the result of the reference
  kernel instantiated at the element type of the input.
\<close>

lemma evaluate_broadcast_dispatch:
  "(\<not> known \<longrightarrow>
      evaluate_broadcast reference_broadcast arg0 out (known, broadcast_axes) output_shape
        = (False, out))
   \<and> (known \<and> (\<exists>t. ht_element_type arg0 = other_tag t) \<longrightarrow>
      fst (evaluate_broadcast reference_broadcast arg0 out (known, broadcast_axes) output_shape)
        = False)
   \<and> (known \<and> (\<forall>t. ht_element_type arg0 \<noteq> other_tag t) \<longrightarrow>
      evaluate_broadcast reference_broadcast arg0 out (known, broadcast_axes) output_shape
        = (True, out\<lparr>ht_shape := output_shape,
                     ht_data := reference_broadcast (ht_element_type arg0) (ht_data arg0)
                                  (ht_data out) (ht_shape arg0) output_shape broadcast_axes\<rparr>))"
proof (intro conjI impI)
  assume "\<not> known"
  then show "evaluate_broadcast reference_broadcast arg0 out (known, broadcast_axes) output_shape
               = (False, out)"
    by (simp add: evaluate_broadcast_def)
next
  assume "known \<and> (\<exists>t. ht_element_type arg0 = other_tag t)"
  then show "fst (evaluate_broadcast reference_broadcast arg0 out (known, broadcast_axes)
                    output_shape) = False"
    by (auto simp: evaluate_broadcast_def)
next
  assume a: "known \<and> (\<forall>t. ht_element_type arg0 \<noteq> other_tag t)"
  then show "evaluate_broadcast reference_broadcast arg0 out (known, broadcast_axes) output_shape
        = (True, out\<lparr>ht_shape := output_shape,
                     ht_data := reference_broadcast (ht_element_type arg0) (ht_data arg0)
                                  (ht_data out) (ht_shape arg0) output_shape broadcast_axes\<rparr>)"
    by (cases "ht_element_type arg0") (simp_all add: evaluate_broadcast_def evaluate_def)
qed

lemma evaluate_broadcast_dispatch_examples:
  "evaluate_broadcast (\<lambda>ET a b in_shape out_shape axes. (ET, snd a + length out_shape))
     \<lparr>ht_element_type = f32, ht_shape = [1, 3], ht_data = (boolean, 7::nat)\<rparr>
     \<lparr>ht_element_type = f32, ht_shape = [], ht_data = (boolean, 0)\<rparr>
     (False, {}) [4, 1, 3]
   = (False, \<lparr>ht_element_type = f32, ht_shape = [], ht_data = (boolean, 0)\<rparr>)
   \<and> fst (evaluate_broadcast (\<lambda>ET a b in_shape out_shape axes. (ET, snd a + length out_shape))
     \<lparr>ht_element_type = other_tag 0, ht_shape = [1, 3], ht_data = (boolean, 7::nat)\<rparr>
     \<lparr>ht_element_type = f32, ht_shape = [], ht_data = (boolean, 0)\<rparr>
     (True, {0}) [4, 1, 3]) = False
   \<and> evaluate_broadcast (\<lambda>ET a b in_shape out_shape axes. (ET, snd a + length out_shape))
     \<lparr>ht_element_type = f32, ht_shape = [1, 3], ht_data = (boolean, 7::nat)\<rparr>
     \<lparr>ht_element_type = f32, ht_shape = [], ht_data = (boolean, 0)\<rparr>
     (True, {0}) [4, 1, 3]
   = (True, \<lparr>ht_element_type = f32, ht_shape = [4, 1, 3], ht_data = (f32, 10)\<rparr>)"
  using evaluate_broadcast_dispatch [of False "\<lambda>ET a b in_shape out_shape axes. (ET, snd a + length out_shape)"
      "\<lparr>ht_element_type = f32, ht_shape = [1, 3], ht_data = (boolean, 7::nat)\<rparr>"
      "\<lparr>ht_element_type = f32, ht_shape = [], ht_data = (boolean, 0)\<rparr>" "{}" "[4, 1, 3]"]
    evaluate_broadcast_dispatch [of True "\<lambda>ET a b in_shape out_shape axes. (ET, snd a + length out_shape)"
      "\<lparr>ht_element_type = other_tag 0, ht_shape = [1, 3], ht_data = (boolean, 7::nat)\<rparr>"
      "\<lparr>ht_element_type = f32, ht_shape = [], ht_data = (boolean, 0)\<rparr>" "{0}" "[4, 1, 3]"]
    evaluate_broadcast_dispatch [of True "\<lambda>ET a b in_shape out_shape axes. (ET, snd a + length out_shape)"
      "\<lparr>ht_element_type = f32, ht_shape = [1, 3], ht_data = (boolean, 7::nat)\<rparr>"
      "\<lparr>ht_element_type = f32, ht_shape = [], ht_data = (boolean, 0)\<rparr>" "{0}" "[4, 1, 3]"]
  by simp

lemma BroadcastBase_evaluate_static_output:
  "get_broadcast_axes node = Inr pair_broadcast_axes \<Longrightarrow>
   partial_shape (bc_output node) = to_partial output_shape \<Longrightarrow>
   BroadcastBase_evaluate reference_broadcast node (out # other_outputs) (arg0 # other_inputs)
     = Inr (fst (evaluate_broadcast reference_broadcast arg0 out pair_broadcast_axes output_shape),
            snd (evaluate_broadcast reference_broadcast arg0 out pair_broadcast_axes output_shape)
              # other_outputs)"
  by (simp add: BroadcastBase_evaluate_def split: prod.splits)

text \<open>
  C7. Evaluation of a Broadcast is to return false, without resizing the output, when
  the broadcast axis set is not known. For the NUMPY node with argument \<open>{1,3}\<close> and a
  target shape that is no literal, inference leaves the output shape dynamic and the
  axis set is not known; \<^verbatim>\<open>BroadcastBase::evaluate\<close> then throws from
  \<^verbatim>\<open>get_output_shape(0)\<close>, computed as an argument before \<^verbatim>\<open>evaluate_broadcast\<close> is
  entered, instead of returning false. With the static output \<open>{4,1,3}\<close> the same call
  returns true with the output resized.
\<close>

theorem BroadcastBase_evaluate_dynamic_output_throws:
  "validate_and_infer_types
    \<lparr>m_mode = \<lparr>m_type = NUMPY, m_axis = 0\<rparr>,
     arg = \<lparr>element_type = f32, partial_shape = Ranked [Static 1, Static 3]\<rparr>,
     target_shape = \<lparr>element_type = i64, partial_shape = Ranked [Static 3]\<rparr>,
     target_shape_node = OtherProducer,
     axes_mapping = \<lparr>element_type = i64, partial_shape = Ranked [Static 0]\<rparr>,
     axes_mapping_constant = Some [],
     bc_output = \<lparr>element_type = boolean, partial_shape = RankDynamic\<rparr>\<rparr>
   = Inr
    \<lparr>m_mode = \<lparr>m_type = NUMPY, m_axis = 0\<rparr>,
     arg = \<lparr>element_type = f32, partial_shape = Ranked [Static 1, Static 3]\<rparr>,
     target_shape = \<lparr>element_type = i64, partial_shape = Ranked [Static 3]\<rparr>,
     target_shape_node = OtherProducer,
     axes_mapping = \<lparr>element_type = i64, partial_shape = Ranked [Static 0]\<rparr>,
     axes_mapping_constant = Some [],
     bc_output = \<lparr>element_type = f32, partial_shape = RankDynamic\<rparr>\<rparr>
   \<and> get_broadcast_axes
    \<lparr>m_mode = \<lparr>m_type = NUMPY, m_axis = 0\<rparr>,
     arg = \<lparr>element_type = f32, partial_shape = Ranked [Static 1, Static 3]\<rparr>,
     target_shape = \<lparr>element_type = i64, partial_shape = Ranked [Static 3]\<rparr>,
     target_shape_node = OtherProducer,
     axes_mapping = \<lparr>element_type = i64, partial_shape = Ranked [Static 0]\<rparr>,
     axes_mapping_constant = Some [],
     bc_output = \<lparr>element_type = f32, partial_shape = RankDynamic\<rparr>\<rparr>
   = Inr (False, {})
   \<and> BroadcastBase_evaluate (\<lambda>ET a b in_shape out_shape axes. a)
    \<lparr>m_mode = \<lparr>m_type = NUMPY, m_axis = 0\<rparr>,
     arg = \<lparr>element_type = f32, partial_shape = Ranked [Static 1, Static 3]\<rparr>,
     target_shape = \<lparr>element_type = i64, partial_shape = Ranked [Static 3]\<rparr>,
     target_shape_node = OtherProducer,
     axes_mapping = \<lparr>element_type = i64, partial_shape = Ranked [Static 0]\<rparr>,
     axes_mapping_constant = Some [],
     bc_output = \<lparr>element_type = f32, partial_shape = RankDynamic\<rparr>\<rparr>
     [\<lparr>ht_element_type = f32, ht_shape = [], ht_data = [] :: nat list\<rparr>]
     [\<lparr>ht_element_type = f32, ht_shape = [1, 3], ht_data = [7, 8, 9]\<rparr>]
   = Inl std_invalid_argument
   \<and> BroadcastBase_evaluate (\<lambda>ET a b in_shape out_shape axes. a)
    \<lparr>m_mode = \<lparr>m_type = NUMPY, m_axis = 0\<rparr>,
     arg = \<lparr>element_type = f32, partial_shape = Ranked [Static 1, Static 3]\<rparr>,
     target_shape = \<lparr>element_type = i64, partial_shape = Ranked [Static 3]\<rparr>,
     target_shape_node = Constant [4, 1, 3],
     axes_mapping = \<lparr>element_type = i64, partial_shape = Ranked [Static 0]\<rparr>,
     axes_mapping_constant = Some [],
     bc_output = \<lparr>element_type = f32, partial_shape = Ranked [Static 4, Static 1, Static 3]\<rparr>\<rparr>
     [\<lparr>ht_element_type = f32, ht_shape = [], ht_data = [] :: nat list\<rparr>]
     [\<lparr>ht_element_type = f32, ht_shape = [1, 3], ht_data = [7, 8, 9]\<rparr>]
   = Inr (True, [\<lparr>ht_element_type = f32, ht_shape = [4, 1, 3], ht_data = [7, 8, 9]\<rparr>])"
proof (intro conjI)
  show "validate_and_infer_types
    \<lparr>m_mode = \<lparr>m_type = NUMPY, m_axis = 0\<rparr>,
     arg = \<lparr>element_type = f32, partial_shape = Ranked [Static 1, Static 3]\<rparr>,
     target_shape = \<lparr>element_type = i64, partial_shape = Ranked [Static 3]\<rparr>,
     target_shape_node = OtherProducer,
     axes_mapping = \<lparr>element_type = i64, partial_shape = Ranked [Static 0]\<rparr>,
     axes_mapping_constant = Some [],
     bc_output = \<lparr>element_type = boolean, partial_shape = RankDynamic\<rparr>\<rparr>
   = Inr
    \<lparr>m_mode = \<lparr>m_type = NUMPY, m_axis = 0\<rparr>,
     arg = \<lparr>element_type = f32, partial_shape = Ranked [Static 1, Static 3]\<rparr>,
     target_shape = \<lparr>element_type = i64, partial_shape = Ranked [Static 3]\<rparr>,
     target_shape_node = OtherProducer,
     axes_mapping = \<lparr>element_type = i64, partial_shape = Ranked [Static 0]\<rparr>,
     axes_mapping_constant = Some [],
     bc_output = \<lparr>element_type = f32, partial_shape = RankDynamic\<rparr>\<rparr>"
    by (simp add: validate_and_infer_types_def check_shape_inputs_def target_result_shape_def
        validate_numpy_pdpd_def validate_axes_mapping_def start_axis_def shape_size_def
        to_partial_def set_output_type_def Let_def upt_conv_Cons)
  show "get_broadcast_axes
    \<lparr>m_mode = \<lparr>m_type = NUMPY, m_axis = 0\<rparr>,
     arg = \<lparr>element_type = f32, partial_shape = Ranked [Static 1, Static 3]\<rparr>,
     target_shape = \<lparr>element_type = i64, partial_shape = Ranked [Static 3]\<rparr>,
     target_shape_node = OtherProducer,
     axes_mapping = \<lparr>element_type = i64, partial_shape = Ranked [Static 0]\<rparr>,
     axes_mapping_constant = Some [],
     bc_output = \<lparr>element_type = f32, partial_shape = RankDynamic\<rparr>\<rparr>
   = Inr (False, {})"
    by (simp add: get_broadcast_axes_def)
  show "BroadcastBase_evaluate (\<lambda>ET a b in_shape out_shape axes. a)
    \<lparr>m_mode = \<lparr>m_type = NUMPY, m_axis = 0\<rparr>,
     arg = \<lparr>element_type = f32, partial_shape = Ranked [Static 1, Static 3]\<rparr>,
     target_shape = \<lparr>element_type = i64, partial_shape = Ranked [Static 3]\<rparr>,
     target_shape_node = OtherProducer,
     axes_mapping = \<lparr>element_type = i64, partial_shape = Ranked [Static 0]\<rparr>,
     axes_mapping_constant = Some [],
     bc_output = \<lparr>element_type = f32, partial_shape = RankDynamic\<rparr>\<rparr>
     [\<lparr>ht_element_type = f32, ht_shape = [], ht_data = [] :: nat list\<rparr>]
     [\<lparr>ht_element_type = f32, ht_shape = [1, 3], ht_data = [7, 8, 9]\<rparr>]
   = Inl std_invalid_argument"
    by (simp add: BroadcastBase_evaluate_def get_broadcast_axes_def)
  show "BroadcastBase_evaluate (\<lambda>ET a b in_shape out_shape axes. a)
    \<lparr>m_mode = \<lparr>m_type = NUMPY, m_axis = 0\<rparr>,
     arg = \<lparr>element_type = f32, partial_shape = Ranked [Static 1, Static 3]\<rparr>,
     target_shape = \<lparr>element_type = i64, partial_shape = Ranked [Static 3]\<rparr>,
     target_shape_node = Constant [4, 1, 3],
     axes_mapping = \<lparr>element_type = i64, partial_shape = Ranked [Static 0]\<rparr>,
     axes_mapping_constant = Some [],
     bc_output = \<lparr>element_type = f32, partial_shape = Ranked [Static 4, Static 1, Static 3]\<rparr>\<rparr>
     [\<lparr>ht_element_type = f32, ht_shape = [], ht_data = [] :: nat list\<rparr>]
     [\<lparr>ht_element_type = f32, ht_shape = [1, 3], ht_data = [7, 8, 9]\<rparr>]
   = Inr (True, [\<lparr>ht_element_type = f32, ht_shape = [4, 1, 3], ht_data = [7, 8, 9]\<rparr>])"
    by (simp add: BroadcastBase_evaluate_def get_broadcast_axes_def start_axis_def Let_def
          upt_conv_Cons evaluate_broadcast_def evaluate_def)
qed

end
